theory Spec2Isabelle
  imports Main "HOL-Library.Sublist"
begin

section \<open>JavaScript values used by the gateway\<close>

text \<open>
  A JavaScript string is modelled as a \<^typ>\<open>string\<close>, one \<^typ>\<open>char\<close> per code unit
  (the Latin-1 range).  \<open>undefined\<close> and \<open>null\<close> are \<^term>\<open>None\<close>.
\<close>

definition endsWith :: "string \<Rightarrow> string \<Rightarrow> bool" where
  "endsWith s x = suffix x s"

text \<open>\<open>s.slice(1)\<close> and \<open>s.slice(0, -k)\<close>.\<close>

definition slice_from1 :: "string \<Rightarrow> string" where
  "slice_from1 s = drop 1 s"

definition slice_to_neg :: "nat \<Rightarrow> 'a list \<Rightarrow> 'a list" where
  "slice_to_neg k xs = take (length xs - k) xs"

text \<open>\<open>s.split('/')\<close>: never the empty array, \<open>''.split('/')\<close> is \<open>['']\<close>.\<close>

fun split_slash :: "string \<Rightarrow> string list" where
  "split_slash [] = [[]]"
| "split_slash (c # cs) =
     (if c = CHR ''/'' then [] # split_slash cs
      else (case split_slash cs of
              [] \<Rightarrow> [[c]]
            | p # ps \<Rightarrow> (c # p) # ps))"

fun join_slash :: "string list \<Rightarrow> string" where
  "join_slash [] = []"
| "join_slash [p] = p"
| "join_slash (p # q # ps) = p @ ''/'' @ join_slash (q # ps)"

text \<open>\<open>s.includes(x)\<close>.\<close>

definition str_includes :: "string \<Rightarrow> string \<Rightarrow> bool" where
  "str_includes s x = sublist x s"

text \<open>
  A JavaScript number that holds an integer, or \<open>NaN\<close>.  The model is exact for
  magnitudes below \<open>2 ^ 53\<close>, where a double holds every integer and \<open>toString\<close>
  writes plain decimal digits.
\<close>

datatype js_number = NaN | Num int

definition digit_char :: "nat \<Rightarrow> char" where
  "digit_char d = ''0123456789'' ! d"

fun show_nat :: "nat \<Rightarrow> string" where
  "show_nat n = (if n < 10 then [digit_char n] else show_nat (n div 10) @ [digit_char (n mod 10)])"

declare show_nat.simps [simp del]

text \<open>\<open>Number.prototype.toString()\<close> on an integer value or \<open>NaN\<close>.\<close>

definition number_toString :: "js_number \<Rightarrow> string" where
  "number_toString n =
     (case n of
        NaN \<Rightarrow> ''NaN''
      | Num i \<Rightarrow> (if i < 0 then ''-'' @ show_nat (nat (- i)) else show_nat (nat i)))"

text \<open>
  A \<open>Date\<close> object: built from a string (\<open>new Date(s)\<close>) or from the clock
  (\<open>new Date()\<close>).  Parsing and formatting belong to the platform, so
  \<open>toUTCString\<close> is a parameter of every function that formats a date.  The two
  clock reads of one call of \<open>fromS3Object\<close> are taken as the same instant.
\<close>

datatype js_date = Date string | Date_now

section \<open>Object records and the property model\<close>

text \<open>The field \<open>size\<close> of the source is \<open>size_bytes\<close> here.\<close>

record S3Object =
  key :: string
  size_bytes :: js_number
  lastModified :: js_date
  etag :: string
  contentType :: "string option"
  contentDisposition :: "string option"
  contentLanguage :: "string option"
  contentEncoding :: "string option"
  cacheControl :: "string option"
  metadata :: "(string \<rightharpoonup> string) option"

record DavProperties =
  creationdate :: "string option"
  displayname :: "string option"
  getcontentlanguage :: "string option"
  getcontentlength :: "string option"
  getcontenttype :: "string option"
  getetag :: "string option"
  getlastmodified :: "string option"
  resourcetype :: string

text \<open>\<open>object.metadata?.resourcetype\<close>.\<close>

definition metadata_resourcetype :: "S3Object \<Rightarrow> string option" where
  "metadata_resourcetype ob =
     (case metadata ob of None \<Rightarrow> None | Some m \<Rightarrow> m ''resourcetype'')"

definition fromS3Object :: "(js_date \<Rightarrow> string) \<Rightarrow> S3Object option \<Rightarrow> DavProperties" where
  "fromS3Object toUTCString object =
     (case object of
        None \<Rightarrow>
          \<lparr> creationdate = Some (toUTCString Date_now),
            displayname = None,
            getcontentlanguage = None,
            getcontentlength = Some ''0'',
            getcontenttype = None,
            getetag = None,
            getlastmodified = Some (toUTCString Date_now),
            resourcetype = ''<collection />'' \<rparr>
      | Some ob \<Rightarrow>
          \<lparr> creationdate = Some (toUTCString (lastModified ob)),
            displayname = contentDisposition ob,
            getcontentlanguage = contentLanguage ob,
            getcontentlength = Some (number_toString (size_bytes ob)),
            getcontenttype = contentType ob,
            getetag = Some (etag ob),
            getlastmodified = Some (toUTCString (lastModified ob)),
            resourcetype = (case metadata_resourcetype ob of None \<Rightarrow> [] | Some v \<Rightarrow> v) \<rparr>)"

section \<open>Regular expressions of the list parser\<close>

text \<open>
  \<open>split_first pat s\<close>: the text before and after the leftmost occurrence of
  \<open>pat\<close> in \<open>s\<close>.
\<close>

fun split_first :: "string \<Rightarrow> string \<Rightarrow> (string \<times> string) option" where
  "split_first pat [] = (if pat = [] then Some ([], []) else None)"
| "split_first pat (c # cs) =
     (if prefix pat (c # cs) then Some ([], drop (length pat) (c # cs))
      else (case split_first pat cs of
              None \<Rightarrow> None
            | Some (b, a) \<Rightarrow> Some (c # b, a)))"

text \<open>The characters that \<open>.\<close> does not match (without the \<open>s\<close> flag).\<close>

definition line_terminator :: "char \<Rightarrow> bool" where
  "line_terminator c = (c = CHR 0x0A \<or> c = CHR 0x0D)"

text \<open>
  \<open>/<T>(.*?)<\/T>/.exec(s)?.[1]\<close>: the first capture group of the leftmost match.
  At a start position the lazy group takes the text up to the nearest closing tag;
  the attempt fails when that text holds a line terminator, and the search moves on
  to the next start position.
\<close>

fun exec_tag :: "string \<Rightarrow> string \<Rightarrow> string \<Rightarrow> string option" where
  "exec_tag opn cls [] = None"
| "exec_tag opn cls (c # cs) =
     (if prefix opn (c # cs) then
        (case split_first cls (drop (length opn) (c # cs)) of
           None \<Rightarrow> exec_tag opn cls cs
         | Some (inner, rest) \<Rightarrow>
             if list_ex line_terminator inner then exec_tag opn cls cs else Some inner)
      else exec_tag opn cls cs)"

text \<open>
  The \<open>while ((match = contentRegex.exec(xmlText)) !== null)\<close> loop over
  \<open>/<Contents>(.*?)<\/Contents>/gs\<close>: the first capture group of every match, each
  search starting where the last match ended.
\<close>

function contents_matches :: "string \<Rightarrow> string list" where
  "contents_matches s =
     (case split_first ''<Contents>'' s of
        None \<Rightarrow> []
      | Some (before, r) \<Rightarrow>
          (case split_first ''</Contents>'' r of
             None \<Rightarrow> []
           | Some (inner, rest) \<Rightarrow> inner # contents_matches rest))"
  by pat_completeness auto
termination
proof (relation "measure length")
  show "wf (measure length)" by simp
next
  have len: "split_first pat s = Some (b, a) \<Longrightarrow> length b + length pat + length a = length s"
    for pat s b a
  proof (induction s arbitrary: b a)
    case Nil
    then show ?case by (simp split: if_splits)
  next
    case (Cons c cs)
    show ?case
    proof (cases "prefix pat (c # cs)")
      case True
      then have "length pat \<le> length (c # cs)" by (rule prefix_length_le)
      with True Cons.prems show ?thesis by auto
    next
      case False
      with Cons.prems obtain b' where "split_first pat cs = Some (b', a)" and "b = c # b'"
        by (auto split: option.splits)
      with Cons.IH show ?thesis by fastforce
    qed
  qed
  fix s x2 x y inner rest xa ya
  assume "split_first ''<Contents>'' s = Some x2" "(x, y) = x2"
    "split_first ''</Contents>'' y = Some xa" "(inner, rest) = xa"
  then have "length x + length ''<Contents>'' + length y = length s"
    and "length inner + length ''</Contents>'' + length rest = length y"
    using len by metis+
  then show "(rest, s) \<in> measure length" by simp
qed

declare contents_matches.simps [simp del]

section \<open>parseInt\<close>

definition is_ws :: "char \<Rightarrow> bool" where
  "is_ws c = (c \<in> set [CHR 0x09, CHR 0x0A, CHR 0x0B, CHR 0x0C, CHR 0x0D, CHR 0x20, CHR 0xA0])"

definition digit_value :: "char \<Rightarrow> nat option" where
  "digit_value c =
     (let n = (of_char c :: nat) in
      if 48 \<le> n \<and> n \<le> 57 then Some (n - 48)
      else if 97 \<le> n \<and> n \<le> 122 then Some (n - 87)
      else if 65 \<le> n \<and> n \<le> 90 then Some (n - 55)
      else None)"

definition is_digit :: "nat \<Rightarrow> char \<Rightarrow> bool" where
  "is_digit radix c = (case digit_value c of None \<Rightarrow> False | Some d \<Rightarrow> d < radix)"

definition digits_value :: "nat \<Rightarrow> string \<Rightarrow> nat" where
  "digits_value radix ds = foldl (\<lambda>acc c. acc * radix + the (digit_value c)) 0 ds"

text \<open>
  \<open>parseInt(s)\<close> with no radix argument: leading white space (of the Latin-1
  range), a sign, a \<open>0x\<close> prefix, then the longest run of digits; \<open>NaN\<close> when there
  is none.
\<close>

definition parseInt :: "string \<Rightarrow> js_number" where
  "parseInt s =
     (let s1 = dropWhile is_ws s;
          neg = (case s1 of [] \<Rightarrow> False | c # r \<Rightarrow> c = CHR ''-'');
          s2 = (case s1 of [] \<Rightarrow> [] | c # r \<Rightarrow> if c = CHR ''-'' \<or> c = CHR ''+'' then r else s1);
          hex = (prefix ''0x'' s2 \<or> prefix ''0X'' s2);
          radix = (if hex then 16 else 10);
          s3 = (if hex then drop 2 s2 else s2);
          ds = takeWhile (is_digit radix) s3
      in if ds = [] then NaN
         else Num ((if neg then - 1 else 1) * int (digits_value radix ds)))"

section \<open>The object store and the fetch interface\<close>

text \<open>
  The object store is outside the program: every handler reaches it through
  \<open>aws.fetch\<close> only.  It is a parameter of the model, a function from a request and
  the state of the store to what the fetch settles to and the next state.

  The URL string that \<open>getS3Url\<close> formats is represented by its arguments: the
  bucket, the key (the argument of \<open>encodeURIComponent\<close>, kept unescaped) and the
  query, which is either the list of parameters given to \<open>URLSearchParams\<close> or a
  literal query string.  The endpoint and region of the environment only change
  the host part and are left out.
\<close>

datatype http_method = GET | HEAD | PUT | DELETE | POST

datatype s3_query = Params "(string \<times> string) list" | Raw string

record s3_url =
  url_bucket :: string
  url_key :: "string option"
  url_query :: "s3_query option"

record s3_request =
  fetch_url :: s3_url
  fetch_method :: http_method
  fetch_headers :: "(string \<times> string) list"
  fetch_body :: "string option"

text \<open>
  A \<open>Response\<close>, of the store or of a handler.  Header names are matched without
  regard to case by the platform; the model spells each name as the source does.
\<close>

record response =
  status :: nat
  statusText :: string
  headers :: "string \<rightharpoonup> string"
  body :: "string option"

text \<open>A fetch resolves to a response or rejects with an error that has a message.\<close>

datatype fetch_result = Resolved response | Rejected string

type_synonym 'st store = "s3_request \<Rightarrow> 'st \<Rightarrow> fetch_result \<times> 'st"

text \<open>
  The world a handler runs in: the requests it has sent so far, oldest first, and
  the state of the store.
\<close>

type_synonym 'st world = "s3_request list \<times> 'st"

definition getS3Url :: "string \<Rightarrow> string option \<Rightarrow> s3_query option \<Rightarrow> s3_url" where
  "getS3Url bucket k q = \<lparr> url_bucket = bucket, url_key = k, url_query = q \<rparr>"

definition aws_fetch :: "'st store \<Rightarrow> s3_request \<Rightarrow> 'st world \<Rightarrow> fetch_result \<times> 'st world" where
  "aws_fetch store rq w =
     (case store rq (snd w) of (r, st') \<Rightarrow> (r, (fst w @ [rq], st')))"

text \<open>\<open>response.ok\<close>\<close>

definition ok :: "response \<Rightarrow> bool" where
  "ok r = (200 \<le> status r \<and> status r \<le> 299)"

text \<open>\<open>await response.text()\<close>\<close>

definition text_of :: "response \<Rightarrow> string" where
  "text_of r = (case body r of None \<Rightarrow> [] | Some t \<Rightarrow> t)"

text \<open>\<open>new Response(body, { status, headers })\<close>\<close>

definition new_Response :: "string option \<Rightarrow> nat \<Rightarrow> (string \<rightharpoonup> string) \<Rightarrow> response" where
  "new_Response b st hs = \<lparr> status = st, statusText = [], headers = hs, body = b \<rparr>"

text \<open>
  How a call ends: it returns, it throws an \<open>Error\<close> with a message, or the model
  ran out of fuel before the listing loop ended.
\<close>

datatype 'a completion = Returns 'a | Throws string | Unfinished

text \<open>\<open>x || d\<close> on an optional string: \<open>undefined\<close>, \<open>null\<close> and \<open>''\<close> are falsy.\<close>

definition or_else :: "string option \<Rightarrow> string \<Rightarrow> string" where
  "or_else x d = (case x of None \<Rightarrow> d | Some v \<Rightarrow> if v = [] then d else v)"

definition truthy :: "string option \<Rightarrow> bool" where
  "truthy x = (case x of None \<Rightarrow> False | Some v \<Rightarrow> v \<noteq> [])"

definition or_undefined :: "string option \<Rightarrow> string option" where
  "or_undefined x = (if truthy x then x else None)"

text \<open>\<open>s.replace(/"/g, '')\<close>\<close>

definition strip_quotes :: "string \<Rightarrow> string" where
  "strip_quotes s = filter (\<lambda>c. c \<noteq> CHR 0x22) s"

section \<open>The listing engine\<close>

definition parse_content :: "string \<Rightarrow> S3Object option" where
  "parse_content contentXml =
     (let keyMatch = exec_tag ''<Key>'' ''</Key>'' contentXml;
          sizeMatch = exec_tag ''<Size>'' ''</Size>'' contentXml;
          lastModifiedMatch = exec_tag ''<LastModified>'' ''</LastModified>'' contentXml;
          etagMatch = exec_tag ''<ETag>'' ''</ETag>'' contentXml
      in case keyMatch of
           None \<Rightarrow> None
         | Some k \<Rightarrow>
             Some \<lparr> key = k,
                    size_bytes = parseInt (or_else sizeMatch ''0''),
                    lastModified = Date (or_else lastModifiedMatch []),
                    etag = or_else (map_option strip_quotes etagMatch) [],
                    contentType = None,
                    contentDisposition = None,
                    contentLanguage = None,
                    contentEncoding = None,
                    cacheControl = None,
                    metadata = Some Map.empty \<rparr>)"

definition parseXmlToObjects :: "string \<Rightarrow> S3Object list" where
  "parseXmlToObjects xmlText = List.map_filter parse_content (contents_matches xmlText)"

text \<open>The parameters of one list request, in the order the source gives them.\<close>

definition list_params :: "string \<Rightarrow> bool \<Rightarrow> string option \<Rightarrow> (string \<times> string) list" where
  "list_params pfx isRecursive continuationToken =
     [(''list-type'', ''2''), (''prefix'', pfx)]
     @ (if isRecursive then [] else [(''delimiter'', ''/'')])
     @ (case continuationToken of
          None \<Rightarrow> []
        | Some t \<Rightarrow> if t = [] then [] else [(''continuation-token'', t)])"

definition list_request :: "string \<Rightarrow> string \<Rightarrow> bool \<Rightarrow> string option \<Rightarrow> s3_request" where
  "list_request bucket pfx isRecursive continuationToken =
     \<lparr> fetch_url = getS3Url bucket None (Some (Params (list_params pfx isRecursive continuationToken))),
       fetch_method = GET,
       fetch_headers = [],
       fetch_body = None \<rparr>"

definition api_error :: "response \<Rightarrow> string" where
  "api_error r = ''S3 API error: '' @ show_nat (status r) @ '' '' @ statusText r"

text \<open>The continuation token a page leaves in \<open>continuationToken\<close>.\<close>

definition next_token :: "string \<Rightarrow> string option" where
  "next_token xmlText =
     (let truncatedMatch = exec_tag ''<IsTruncated>'' ''</IsTruncated>'' xmlText;
          isTruncated = (truncatedMatch = Some ''true'')
      in if isTruncated
         then exec_tag ''<NextContinuationToken>'' ''</NextContinuationToken>'' xmlText
         else None)"

text \<open>The \<open>for (const object of objects) yield object\<close> of one page, with the
  body of the consuming \<open>for await\<close> loop run on each object as it is yielded.\<close>

fun yield_each :: "('o \<Rightarrow> 'a \<Rightarrow> 'w \<Rightarrow> 'a \<times> 'w) \<Rightarrow> 'o list \<Rightarrow> 'a \<Rightarrow> 'w \<Rightarrow> 'a \<times> 'w" where
  "yield_each f [] acc w = (acc, w)"
| "yield_each f (ob # obs) acc w = (case f ob acc w of (acc', w') \<Rightarrow> yield_each f obs acc' w')"

text \<open>
  The generator \<open>listAll\<close> together with the \<open>for await\<close> loop that consumes it.
  \<open>f\<close> is the body of that loop, \<open>acc\<close> what it has built so far.  Each turn of the
  \<open>do ... while\<close> loop takes one unit of fuel; the loop has no bound of its own, and
  the result is \<open>Unfinished\<close> when the fuel runs out first.
\<close>

fun listAll ::
  "nat \<Rightarrow> 'st store \<Rightarrow> string \<Rightarrow> string \<Rightarrow> bool \<Rightarrow> string option
     \<Rightarrow> (S3Object \<Rightarrow> 'a \<Rightarrow> 'st world \<Rightarrow> 'a \<times> 'st world) \<Rightarrow> 'a \<Rightarrow> 'st world
     \<Rightarrow> 'a completion \<times> 'st world" where
  "listAll 0 store bucket pfx isRecursive continuationToken f acc w = (Unfinished, w)"
| "listAll (Suc fuel) store bucket pfx isRecursive continuationToken f acc w =
     (case aws_fetch store (list_request bucket pfx isRecursive continuationToken) w of
        (Rejected msg, w1) \<Rightarrow> (Throws msg, w1)
      | (Resolved resp, w1) \<Rightarrow>
          if \<not> ok resp then (Throws (api_error resp), w1)
          else
            (let xmlText = text_of resp;
                 objects = parseXmlToObjects xmlText
             in case yield_each f objects acc w1 of
                  (acc', w2) \<Rightarrow>
                    (let continuationToken' = next_token xmlText
                     in if truthy continuationToken'
                        then listAll fuel store bucket pfx isRecursive continuationToken' f acc' w2
                        else (Returns acc', w2))))"


section \<open>Requests and resource paths\<close>

text \<open>
  The incoming \<open>Request\<close>: its URL as one string, the \<open>pathname\<close> the platform's
  URL parser reads from it, the values \<open>headers.get\<close> returns, and the body.
  \<open>destination_pathname\<close> is what \<open>new URL(h).pathname\<close> gives for the value
  \<open>h\<close> of the Destination header, \<open>None\<close> when the constructor throws; COPY and
  MOVE then end with the platform's error, whose message is written
  \<open>Invalid URL\<close> here.
\<close>

record request =
  url :: string
  pathname :: string
  header :: "string \<rightharpoonup> string"
  payload :: string
  destination_pathname :: "string option"

text \<open>The path of a parsed URL to a resource path: \<open>slice(1)\<close>, then one trailing
  slash dropped.\<close>

definition strip_path :: "string \<Rightarrow> string" where
  "strip_path p =
     (let path = slice_from1 p
      in if endsWith path ''/'' then slice_to_neg 1 path else path)"

definition make_resource_path :: "request \<Rightarrow> string" where
  "make_resource_path rq = strip_path (pathname rq)"

definition head_request :: "string \<Rightarrow> string \<Rightarrow> s3_request" where
  "head_request bucket k =
     \<lparr> fetch_url = getS3Url bucket (Some k) None,
       fetch_method = HEAD,
       fetch_headers = [],
       fetch_body = None \<rparr>"

text \<open>The \<open>catch\<close> block the handlers share: an error whose message holds
  \<open>404\<close> becomes a 404 response, any other error is thrown again.\<close>

definition catch_404 :: "string \<Rightarrow> response completion" where
  "catch_404 msg =
     (if str_includes msg ''404''
      then Returns (new_Response (Some ''Not Found'') 404 Map.empty)
      else Throws msg)"

section \<open>PROPFIND\<close>

definition nl :: string where "nl = [CHR 0x0A]"
definition tab :: string where "tab = [CHR 0x09]"
definition dq :: string where "dq = [CHR 0x22]"

text \<open>\<open>Object.entries\<close> of a property set, in the order the fields are written.\<close>

definition entries :: "DavProperties \<Rightarrow> (string \<times> string option) list" where
  "entries p =
     [(''creationdate'', creationdate p),
      (''displayname'', displayname p),
      (''getcontentlanguage'', getcontentlanguage p),
      (''getcontentlength'', getcontentlength p),
      (''getcontenttype'', getcontenttype p),
      (''getetag'', getetag p),
      (''getlastmodified'', getlastmodified p),
      (''resourcetype'', Some (resourcetype p))]"

fun join :: "string \<Rightarrow> string list \<Rightarrow> string" where
  "join sep [] = []"
| "join sep [p] = p"
| "join sep (p # q # ps) = p @ sep @ join sep (q # ps)"

definition render_props :: "DavProperties \<Rightarrow> string" where
  "render_props p =
     join (nl @ tab @ tab @ tab @ tab)
       (map (\<lambda>(k, v). ''<'' @ k @ ''>'' @ the v @ ''</'' @ k @ ''>'')
          (filter (\<lambda>(k, v). v \<noteq> None) (entries p)))"

definition response_element :: "string \<Rightarrow> string \<Rightarrow> string" where
  "response_element href props =
     nl @ tab @ ''<response>'' @ nl
     @ tab @ tab @ ''<href>'' @ href @ ''</href>'' @ nl
     @ tab @ tab @ ''<propstat>'' @ nl
     @ tab @ tab @ tab @ ''<prop>'' @ nl
     @ tab @ tab @ tab @ props @ nl
     @ tab @ tab @ tab @ ''</prop>'' @ nl
     @ tab @ tab @ tab @ ''<status>HTTP/1.1 200 OK</status>'' @ nl
     @ tab @ tab @ ''</propstat>'' @ nl
     @ tab @ ''</response>''"

definition generate_propfind_response :: "(js_date \<Rightarrow> string) \<Rightarrow> S3Object option \<Rightarrow> string" where
  "generate_propfind_response toUTCString object =
     (case object of
        None \<Rightarrow> response_element ''/'' (render_props (fromS3Object toUTCString None))
      | Some ob \<Rightarrow>
          (let href = ''/'' @ key ob
                 @ (if metadata_resourcetype ob = Some ''<collection />'' then ''/'' else [])
           in response_element href (render_props (fromS3Object toUTCString (Some ob)))))"

text \<open>The record \<open>handle_propfind\<close> builds from the headers of a HEAD response.\<close>

definition object_of_head :: "string \<Rightarrow> response \<Rightarrow> S3Object" where
  "object_of_head resource_path r =
     \<lparr> key = resource_path,
       size_bytes = parseInt (or_else (headers r ''Content-Length'') ''0''),
       lastModified = Date (or_else (headers r ''Last-Modified'') []),
       etag = or_else (map_option strip_quotes (headers r ''ETag'')) [],
       contentType = or_undefined (headers r ''Content-Type''),
       contentDisposition = or_undefined (headers r ''Content-Disposition''),
       contentLanguage = or_undefined (headers r ''Content-Language''),
       contentEncoding = or_undefined (headers r ''Content-Encoding''),
       cacheControl = or_undefined (headers r ''Cache-Control''),
       metadata = Some [''resourcetype'' \<mapsto> or_else (headers r ''x-amz-meta-resourcetype'') []] \<rparr>"

definition multistatus_open :: string where
  "multistatus_open =
     ''<?xml version='' @ dq @ ''1.0'' @ dq @ '' encoding='' @ dq @ ''utf-8'' @ dq @ ''?>'' @ nl
     @ ''<multistatus xmlns='' @ dq @ ''DAV:'' @ dq @ ''>''"

definition multistatus_close :: string where
  "multistatus_close = nl @ ''</multistatus>'' @ nl"

text \<open>The body of the two \<open>for await\<close> loops of PROPFIND:
  \<open>page += generate_propfind_response(object)\<close>.\<close>

definition append_response :: "(js_date \<Rightarrow> string) \<Rightarrow> S3Object \<Rightarrow> string \<Rightarrow> 'w \<Rightarrow> string \<times> 'w" where
  "append_response toUTCString ob page w = (page @ generate_propfind_response toUTCString (Some ob), w)"

text \<open>The first half of \<open>handle_propfind\<close>: the response element of the target
  itself.  \<open>Inl\<close> is an early end of the handler, \<open>Inr\<close> the page so far and
  \<open>is_collection\<close>.\<close>

definition propfind_self ::
  "(js_date \<Rightarrow> string) \<Rightarrow> 'st store \<Rightarrow> string \<Rightarrow> string \<Rightarrow> 'st world
     \<Rightarrow> (response completion + string \<times> bool) \<times> 'st world" where
  "propfind_self toUTCString store bucket resource_path w =
     (if resource_path = [] then
        (Inr (multistatus_open @ generate_propfind_response toUTCString None, True), w)
      else
        (case aws_fetch store (head_request bucket resource_path) w of
           (Rejected msg, w1) \<Rightarrow> (Inl (catch_404 msg), w1)
         | (Resolved resp, w1) \<Rightarrow>
             if status resp = 404 then
               (Inl (Returns (new_Response (Some ''Not Found'') 404 Map.empty)), w1)
             else if \<not> ok resp then (Inl (catch_404 (api_error resp)), w1)
             else
               (let object = object_of_head resource_path resp;
                    is_collection = (metadata_resourcetype object = Some ''<collection />'')
                in (Inr (multistatus_open @ generate_propfind_response toUTCString (Some object),
                         is_collection), w1))))"

definition multistatus :: "string \<Rightarrow> response" where
  "multistatus page =
     new_Response (Some (page @ multistatus_close)) 207 [''Content-Type'' \<mapsto> ''text/xml'']"

definition handle_propfind ::
  "(js_date \<Rightarrow> string) \<Rightarrow> nat \<Rightarrow> 'st store \<Rightarrow> string \<Rightarrow> request \<Rightarrow> 'st world
     \<Rightarrow> response completion \<times> 'st world" where
  "handle_propfind toUTCString fuel store bucket rq w =
     (let resource_path = make_resource_path rq
      in case propfind_self toUTCString store bucket resource_path w of
           (Inl early, w1) \<Rightarrow> (early, w1)
         | (Inr (page, is_collection), w1) \<Rightarrow>
             if is_collection then
               (let depth = (case header rq ''Depth'' of None \<Rightarrow> ''infinity'' | Some d \<Rightarrow> d);
                    pfx = (if resource_path = [] then resource_path else resource_path @ ''/'')
                in if depth = ''0'' then (Returns (multistatus page), w1)
                   else if depth = ''1'' then
                     (case listAll fuel store bucket pfx False None (append_response toUTCString) page w1 of
                        (Returns page', w2) \<Rightarrow> (Returns (multistatus page'), w2)
                      | (Throws msg, w2) \<Rightarrow> (Throws msg, w2)
                      | (Unfinished, w2) \<Rightarrow> (Unfinished, w2))
                   else if depth = ''infinity'' then
                     (case listAll fuel store bucket pfx True None (append_response toUTCString) page w1 of
                        (Returns page', w2) \<Rightarrow> (Returns (multistatus page'), w2)
                      | (Throws msg, w2) \<Rightarrow> (Throws msg, w2)
                      | (Unfinished, w2) \<Rightarrow> (Unfinished, w2))
                   else (Returns (new_Response (Some ''Forbidden'') 403 Map.empty), w1))
             else (Returns (multistatus page), w1))"

section \<open>PUT\<close>

definition conflict :: response where
  "conflict = new_Response (Some ''Conflict'') 409 Map.empty"

text \<open>The content headers a PUT copies from the request: those with a non-empty value.\<close>

definition copied_headers :: "request \<Rightarrow> (string \<times> string) list" where
  "copied_headers rq =
     List.map_filter
       (\<lambda>n. case header rq n of
              None \<Rightarrow> None
            | Some v \<Rightarrow> if v = [] then None else Some (n, v))
       [''Content-Type'', ''Content-Disposition'', ''Content-Language'',
        ''Content-Encoding'', ''Cache-Control'']"

definition put_request :: "string \<Rightarrow> string \<Rightarrow> (string \<times> string) list \<Rightarrow> string \<Rightarrow> s3_request" where
  "put_request bucket k hs b =
     \<lparr> fetch_url = getS3Url bucket (Some k) None,
       fetch_method = PUT,
       fetch_headers = hs,
       fetch_body = Some b \<rparr>"

text \<open>\<open>path.split('/').slice(0, -k).join('/')\<close>\<close>

definition parent_path :: "nat \<Rightarrow> string \<Rightarrow> string" where
  "parent_path k path = join_slash (slice_to_neg k (split_slash path))"

definition handle_put :: "'st store \<Rightarrow> string \<Rightarrow> request \<Rightarrow> 'st world \<Rightarrow> response completion \<times> 'st world" where
  "handle_put store bucket rq w =
     (if endsWith (url rq) ''/'' then
        (Returns (new_Response (Some ''Method Not Allowed'') 405 Map.empty), w)
      else
        (let resource_path = make_resource_path rq;
             dirpath = parent_path 1 resource_path
         in case (if dirpath \<noteq> [] then
                    (case aws_fetch store (head_request bucket dirpath) w of
                       (Rejected msg, w1) \<Rightarrow> (Some conflict, w1)
                     | (Resolved resp, w1) \<Rightarrow>
                         if status resp = 404 then (Some conflict, w1)
                         else if headers resp ''x-amz-meta-resourcetype'' \<noteq> Some ''<collection />''
                         then (Some conflict, w1)
                         else (None, w1))
                  else (None, w)) of
              (Some early, w1) \<Rightarrow> (Returns early, w1)
            | (None, w1) \<Rightarrow>
                (case aws_fetch store
                        (put_request bucket resource_path (copied_headers rq) (payload rq)) w1 of
                   (Rejected msg, w2) \<Rightarrow> (Throws msg, w2)
                 | (Resolved resp, w2) \<Rightarrow>
                     if \<not> ok resp then (Throws (api_error resp), w2)
                     else (Returns (new_Response (Some []) 201 Map.empty), w2))))"

section \<open>DELETE\<close>

definition delete_request :: "string \<Rightarrow> string \<Rightarrow> s3_request" where
  "delete_request bucket k =
     \<lparr> fetch_url = getS3Url bucket (Some k) None,
       fetch_method = DELETE,
       fetch_headers = [],
       fetch_body = None \<rparr>"

definition deleteXml :: "string list \<Rightarrow> string" where
  "deleteXml objectsToDelete =
     ''<?xml version='' @ dq @ ''1.0'' @ dq @ '' encoding='' @ dq @ ''UTF-8'' @ dq @ ''?>'' @ nl
     @ ''<Delete>'' @ nl
     @ tab @ concat (map (\<lambda>k. ''<Object><Key>'' @ k @ ''</Key></Object>'') objectsToDelete) @ nl
     @ ''</Delete>''"

definition batch_delete_request :: "string \<Rightarrow> string list \<Rightarrow> s3_request" where
  "batch_delete_request bucket objectsToDelete =
     \<lparr> fetch_url = getS3Url bucket None (Some (Raw ''delete'')),
       fetch_method = POST,
       fetch_headers = [(''Content-Type'', ''application/xml'')],
       fetch_body = Some (deleteXml objectsToDelete) \<rparr>"

text \<open>The batch delete both branches of DELETE end with; \<open>Some msg\<close> is the error
  thrown, \<open>None\<close> a normal end.\<close>

definition batch_delete :: "'st store \<Rightarrow> string \<Rightarrow> string list \<Rightarrow> 'st world \<Rightarrow> string option \<times> 'st world" where
  "batch_delete store bucket objectsToDelete w =
     (if objectsToDelete \<noteq> [] then
        (case aws_fetch store (batch_delete_request bucket objectsToDelete) w of
           (Rejected msg, w1) \<Rightarrow> (Some msg, w1)
         | (Resolved resp, w1) \<Rightarrow>
             if \<not> ok resp then (Some (api_error resp), w1) else (None, w1))
      else (None, w))"

text \<open>\<open>objectsToDelete.push(object.key)\<close>\<close>

definition push_key :: "S3Object \<Rightarrow> string list \<Rightarrow> 'w \<Rightarrow> string list \<times> 'w" where
  "push_key ob acc w = (acc @ [key ob], w)"

definition no_content :: response where
  "no_content = new_Response None 204 Map.empty"

definition handle_delete ::
  "nat \<Rightarrow> 'st store \<Rightarrow> string \<Rightarrow> request \<Rightarrow> 'st world \<Rightarrow> response completion \<times> 'st world" where
  "handle_delete fuel store bucket rq w =
     (let resource_path = make_resource_path rq
      in if resource_path = [] then
           (case listAll fuel store bucket [] True None push_key [] w of
              (Unfinished, w1) \<Rightarrow> (Unfinished, w1)
            | (Throws msg, w1) \<Rightarrow> (Throws msg, w1)
            | (Returns objectsToDelete, w1) \<Rightarrow>
                (case batch_delete store bucket objectsToDelete w1 of
                   (Some msg, w2) \<Rightarrow> (Throws msg, w2)
                 | (None, w2) \<Rightarrow> (Returns no_content, w2)))
         else
           (case aws_fetch store (head_request bucket resource_path) w of
              (Rejected msg, w1) \<Rightarrow> (catch_404 msg, w1)
            | (Resolved headResponse, w1) \<Rightarrow>
                if status headResponse = 404 then
                  (Returns (new_Response (Some ''Not Found'') 404 Map.empty), w1)
                else
                  (case aws_fetch store (delete_request bucket resource_path) w1 of
                     (Rejected msg, w2) \<Rightarrow> (catch_404 msg, w2)
                   | (Resolved deleteResponse, w2) \<Rightarrow>
                       if \<not> ok deleteResponse then (catch_404 (api_error deleteResponse), w2)
                       else if headers headResponse ''x-amz-meta-resourcetype'' \<noteq> Some ''<collection />''
                       then (Returns no_content, w2)
                       else
                         (case listAll fuel store bucket (resource_path @ ''/'') True None push_key [] w2 of
                            (Unfinished, w3) \<Rightarrow> (Unfinished, w3)
                          | (Throws msg, w3) \<Rightarrow> (catch_404 msg, w3)
                          | (Returns objectsToDelete, w3) \<Rightarrow>
                              (case batch_delete store bucket objectsToDelete w3 of
                                 (Some msg, w4) \<Rightarrow> (catch_404 msg, w4)
                               | (None, w4) \<Rightarrow> (Returns no_content, w4))))))"

section \<open>COPY and MOVE\<close>

definition copy_request :: "string \<Rightarrow> string \<Rightarrow> string \<Rightarrow> s3_request" where
  "copy_request bucket target source =
     \<lparr> fetch_url = getS3Url bucket (Some target) None,
       fetch_method = PUT,
       fetch_headers = [(''x-amz-copy-source'', bucket @ ''/'' @ source)],
       fetch_body = None \<rparr>"

definition copy_error :: "response \<Rightarrow> string" where
  "copy_error r = ''S3 copy error: '' @ show_nat (status r)"

text \<open>The check of the destination's parent that COPY and MOVE start with:
  \<open>Some\<close> is the early 409.\<close>

definition destination_parent :: "string \<Rightarrow> string" where
  "destination_parent destination =
     parent_path (if endsWith destination ''/'' then 2 else 1) destination"

definition destination_parent_check ::
  "'st store \<Rightarrow> string \<Rightarrow> string \<Rightarrow> 'st world \<Rightarrow> response option \<times> 'st world" where
  "destination_parent_check store bucket destination w =
     (if destination_parent destination \<noteq> [] then
        (case aws_fetch store (head_request bucket (destination_parent destination)) w of
           (Rejected msg, w1) \<Rightarrow> (Some conflict, w1)
         | (Resolved parentResponse, w1) \<Rightarrow>
             if status parentResponse = 404 then (Some conflict, w1) else (None, w1))
      else (None, w))"

text \<open>The HEAD of the destination: \<open>destination_exists\<close>.  A rejected fetch is
  caught and leaves it false.\<close>

definition destination_exists_check :: "'st store \<Rightarrow> string \<Rightarrow> string \<Rightarrow> 'st world \<Rightarrow> bool \<times> 'st world" where
  "destination_exists_check store bucket destination w =
     (case aws_fetch store (head_request bucket destination) w of
        (Rejected msg, w1) \<Rightarrow> (False, w1)
      | (Resolved destResponse, w1) \<Rightarrow> (ok destResponse, w1))"

definition created_or_no_content :: "bool \<Rightarrow> response" where
  "created_or_no_content destination_exists =
     new_Response (if destination_exists then None else Some [])
       (if destination_exists then 204 else 201) Map.empty"

definition precondition_failed :: response where
  "precondition_failed = new_Response (Some ''Precondition Failed'') 412 Map.empty"

definition not_found :: response where
  "not_found = new_Response (Some ''Not Found'') 404 Map.empty"

definition bad_request :: response where
  "bad_request = new_Response (Some ''Bad Request'') 400 Map.empty"

text \<open>The target key of a descendant in a recursive copy or move.\<close>

definition target_key :: "string \<Rightarrow> string \<Rightarrow> string \<Rightarrow> string" where
  "target_key destination pfx objectKey =
     (let target = destination @ ''/'' @ drop (length pfx) objectKey
      in if endsWith target ''/'' then slice_to_neg 1 target else target)"

text \<open>
  A promise of the fan-out is modelled by what it settles to: \<open>None\<close> when it is
  fulfilled, \<open>Some msg\<close> when it is rejected with that message.  The promises of a
  fan-out are independent of each other; the model runs each one to its end at the
  point where the source starts it, so the requests of one promise stay in program
  order and the promises follow each other in the order of \<open>promise_array\<close>.
  \<open>Promise.all\<close> then rejects with the first rejection in that order.
\<close>

definition promise_all :: "string option list \<Rightarrow> string option" where
  "promise_all promise_array =
     (case List.map_filter id promise_array of [] \<Rightarrow> None | msg # rest \<Rightarrow> Some msg)"

text \<open>The closure \<open>copy\<close> of the recursive COPY, as the body of its \<open>for await\<close> loop.\<close>

definition copy ::
  "'st store \<Rightarrow> string \<Rightarrow> string \<Rightarrow> string \<Rightarrow> S3Object \<Rightarrow> string option list \<Rightarrow> 'st world
     \<Rightarrow> string option list \<times> 'st world" where
  "copy store bucket destination pfx ob promise_array w =
     (case aws_fetch store (copy_request bucket (target_key destination pfx (key ob)) (key ob)) w of
        (Rejected msg, w1) \<Rightarrow> (promise_array @ [Some msg], w1)
      | (Resolved copyResponse, w1) \<Rightarrow>
          (promise_array @ [if \<not> ok copyResponse then Some (copy_error copyResponse) else None], w1))"

text \<open>A single copy whose response is checked: Depth 0 on a collection, and every
  plain resource.\<close>

definition copy_one ::
  "'st store \<Rightarrow> string \<Rightarrow> string \<Rightarrow> string \<Rightarrow> bool \<Rightarrow> 'st world \<Rightarrow> response completion \<times> 'st world" where
  "copy_one store bucket destination resource_path destination_exists w =
     (case aws_fetch store (copy_request bucket destination resource_path) w of
        (Rejected msg, w1) \<Rightarrow> (catch_404 msg, w1)
      | (Resolved copyResponse, w1) \<Rightarrow>
          if \<not> ok copyResponse then (catch_404 (copy_error copyResponse), w1)
          else (Returns (created_or_no_content destination_exists), w1))"

definition handle_copy ::
  "nat \<Rightarrow> 'st store \<Rightarrow> string \<Rightarrow> request \<Rightarrow> 'st world \<Rightarrow> response completion \<times> 'st world" where
  "handle_copy fuel store bucket rq w =
     (let resource_path = make_resource_path rq;
          dont_overwrite = (header rq ''Overwrite'' = Some ''F'')
      in case header rq ''Destination'' of
           None \<Rightarrow> (Returns bad_request, w)
         | Some destination_header \<Rightarrow>
        (case destination_pathname rq of
           None \<Rightarrow> (Throws ''Invalid URL'', w)
         | Some p \<Rightarrow>
        (let destination = strip_path p
         in case destination_parent_check store bucket destination w of
              (Some early, w1) \<Rightarrow> (Returns early, w1)
            | (None, w1) \<Rightarrow>
           (case destination_exists_check store bucket destination w1 of
              (destination_exists, w2) \<Rightarrow>
           if destination_exists \<and> dont_overwrite then (Returns precondition_failed, w2)
           else
           (case aws_fetch store (head_request bucket resource_path) w2 of
              (Rejected msg, w3) \<Rightarrow> (catch_404 msg, w3)
            | (Resolved sourceResponse, w3) \<Rightarrow>
           if status sourceResponse = 404 then (Returns not_found, w3)
           else
           (let is_dir = (headers sourceResponse ''x-amz-meta-resourcetype'' = Some ''<collection />'')
            in if is_dir then
                 (let depth = (case header rq ''Depth'' of None \<Rightarrow> ''infinity'' | Some d \<Rightarrow> d)
                  in if depth = ''infinity'' then
                       (let pfx = resource_path @ ''/''
                        in case aws_fetch store (copy_request bucket destination resource_path) w3 of
                             (dir, w4) \<Rightarrow>
                          (let promise_array = [case dir of Rejected msg \<Rightarrow> Some msg | Resolved r \<Rightarrow> None]
                           in case listAll fuel store bucket pfx True None
                                     (copy store bucket destination pfx) promise_array w4 of
                                (Unfinished, w5) \<Rightarrow> (Unfinished, w5)
                              | (Throws msg, w5) \<Rightarrow> (catch_404 msg, w5)
                              | (Returns promise_array', w5) \<Rightarrow>
                                  (case promise_all promise_array' of
                                     Some msg \<Rightarrow> (catch_404 msg, w5)
                                   | None \<Rightarrow> (Returns (created_or_no_content destination_exists), w5))))
                     else if depth = ''0'' then
                       copy_one store bucket destination resource_path destination_exists w3
                     else (Returns bad_request, w3))
               else copy_one store bucket destination resource_path destination_exists w3))))))"

text \<open>The closure \<open>move\<close> of the recursive MOVE: the copy is checked, the response
  of the delete that follows is not read.\<close>

definition move ::
  "'st store \<Rightarrow> string \<Rightarrow> string \<Rightarrow> string \<Rightarrow> S3Object \<Rightarrow> string option list \<Rightarrow> 'st world
     \<Rightarrow> string option list \<times> 'st world" where
  "move store bucket destination pfx ob promise_array w =
     (case aws_fetch store (copy_request bucket (target_key destination pfx (key ob)) (key ob)) w of
        (Rejected msg, w1) \<Rightarrow> (promise_array @ [Some msg], w1)
      | (Resolved copyResponse, w1) \<Rightarrow>
          if \<not> ok copyResponse then (promise_array @ [Some (copy_error copyResponse)], w1)
          else
            (case aws_fetch store (delete_request bucket (key ob)) w1 of
               (Rejected msg, w2) \<Rightarrow> (promise_array @ [Some msg], w2)
             | (Resolved deleteResponse, w2) \<Rightarrow> (promise_array @ [None], w2)))"

text \<open>The first promise of the recursive MOVE: the copy of the collection's own
  object, then its delete; neither response is read.\<close>

definition move_dir :: "'st store \<Rightarrow> string \<Rightarrow> string \<Rightarrow> string \<Rightarrow> 'st world \<Rightarrow> string option \<times> 'st world" where
  "move_dir store bucket destination resource_path w =
     (case aws_fetch store (copy_request bucket destination resource_path) w of
        (Rejected msg, w1) \<Rightarrow> (Some msg, w1)
      | (Resolved copyResponse, w1) \<Rightarrow>
          (case aws_fetch store (delete_request bucket resource_path) w1 of
             (Rejected msg, w2) \<Rightarrow> (Some msg, w2)
           | (Resolved deleteResponse, w2) \<Rightarrow> (None, w2)))"

definition move_one ::
  "'st store \<Rightarrow> string \<Rightarrow> string \<Rightarrow> string \<Rightarrow> bool \<Rightarrow> 'st world \<Rightarrow> response completion \<times> 'st world" where
  "move_one store bucket destination resource_path destination_exists w =
     (case aws_fetch store (copy_request bucket destination resource_path) w of
        (Rejected msg, w1) \<Rightarrow> (catch_404 msg, w1)
      | (Resolved copyResponse, w1) \<Rightarrow>
          if \<not> ok copyResponse then (catch_404 (copy_error copyResponse), w1)
          else
            (case aws_fetch store (delete_request bucket resource_path) w1 of
               (Rejected msg, w2) \<Rightarrow> (catch_404 msg, w2)
             | (Resolved deleteResponse, w2) \<Rightarrow>
                 (Returns (created_or_no_content destination_exists), w2)))"

text \<open>MOVE from the HEAD of the source on: the \<open>try\<close> block of \<open>handle_move\<close>.\<close>

definition move_body ::
  "nat \<Rightarrow> 'st store \<Rightarrow> string \<Rightarrow> request \<Rightarrow> string \<Rightarrow> string \<Rightarrow> string \<Rightarrow> bool \<Rightarrow> 'st world
     \<Rightarrow> response completion \<times> 'st world" where
  "move_body fuel store bucket rq destination_header p destination destination_exists w2 =
     (let resource_path = make_resource_path rq
      in case aws_fetch store (head_request bucket resource_path) w2 of
           (Rejected msg, w3) \<Rightarrow> (catch_404 msg, w3)
         | (Resolved sourceResponse, w3) \<Rightarrow>
        if status sourceResponse = 404 then (Returns not_found, w3)
        else if resource_path = destination then (Returns bad_request, w3)
        else
        (case (if destination_exists
               then (case handle_delete fuel store bucket
                            (rq\<lparr> url := destination_header, pathname := p \<rparr>) w3 of
                       (Returns deleted, w4) \<Rightarrow> (None, w4)
                     | (Throws msg, w4) \<Rightarrow> (Some (catch_404 msg), w4)
                     | (Unfinished, w4) \<Rightarrow> (Some Unfinished, w4))
               else (None, w3)) of
           (Some early, w4) \<Rightarrow> (early, w4)
         | (None, w4) \<Rightarrow>
        (let is_dir = (headers sourceResponse ''x-amz-meta-resourcetype'' = Some ''<collection />'')
         in if is_dir then
              (let depth = (case header rq ''Depth'' of None \<Rightarrow> ''infinity'' | Some d \<Rightarrow> d)
               in if depth = ''infinity'' then
                    (let pfx = resource_path @ ''/''
                     in case move_dir store bucket destination resource_path w4 of
                          (dir, w5) \<Rightarrow>
                       (case listAll fuel store bucket pfx True None
                               (move store bucket destination pfx) [dir] w5 of
                          (Unfinished, w6) \<Rightarrow> (Unfinished, w6)
                        | (Throws msg, w6) \<Rightarrow> (catch_404 msg, w6)
                        | (Returns promise_array, w6) \<Rightarrow>
                            (case promise_all promise_array of
                               Some msg \<Rightarrow> (catch_404 msg, w6)
                             | None \<Rightarrow> (Returns (created_or_no_content destination_exists), w6))))
                  else if depth = ''0'' then
                    move_one store bucket destination resource_path destination_exists w4
                  else (Returns bad_request, w4))
            else move_one store bucket destination resource_path destination_exists w4)))"

definition handle_move ::
  "nat \<Rightarrow> 'st store \<Rightarrow> string \<Rightarrow> request \<Rightarrow> 'st world \<Rightarrow> response completion \<times> 'st world" where
  "handle_move fuel store bucket rq w =
     (let overwrite = (header rq ''Overwrite'' = Some ''T'')
      in case header rq ''Destination'' of
           None \<Rightarrow> (Returns bad_request, w)
         | Some destination_header \<Rightarrow>
        (case destination_pathname rq of
           None \<Rightarrow> (Throws ''Invalid URL'', w)
         | Some p \<Rightarrow>
        (let destination = strip_path p
         in case destination_parent_check store bucket destination w of
              (Some early, w1) \<Rightarrow> (Returns early, w1)
            | (None, w1) \<Rightarrow>
           (case destination_exists_check store bucket destination w1 of
              (destination_exists, w2) \<Rightarrow>
           if destination_exists \<and> \<not> overwrite then (Returns precondition_failed, w2)
           else move_body fuel store bucket rq destination_header p destination destination_exists w2))))"

section \<open>The list response on the wire\<close>

text \<open>
  What the parser of the listing engine is given: the XML of one page of the
  store's list API.  A page holds the continuation token (when there is one), the
  key limit, the truncation flag, one \<open>Contents\<close> element per key with its \<open>Key\<close>,
  \<open>LastModified\<close>, \<open>ETag\<close> and \<open>Size\<close>, and one \<open>CommonPrefixes\<close> element per
  group of keys that a delimiter folds together.  This is the input format of
  \<open>parseXmlToObjects\<close>, written down so that theorems can speak about the keys of a
  page; no function of the gateway is defined from it.
\<close>

record list_entry =
  entry_key :: string
  entry_lastModified :: string
  entry_etag :: string
  entry_size :: string

definition contents_inner :: "list_entry \<Rightarrow> string" where
  "contents_inner e =
     ''<Key>'' @ entry_key e @ ''</Key><LastModified>'' @ entry_lastModified e
     @ ''</LastModified><ETag>'' @ entry_etag e @ ''</ETag><Size>'' @ entry_size e
     @ ''</Size><StorageClass>'' @ ''STANDARD'' @ ''</StorageClass>''"

definition contents_xml :: "list_entry \<Rightarrow> string" where
  "contents_xml e = ''<Contents>'' @ contents_inner e @ ''</Contents>''"

definition common_prefix_xml :: "string \<Rightarrow> string" where
  "common_prefix_xml p = ''<CommonPrefixes><Prefix>'' @ p @ ''</Prefix></CommonPrefixes>''"

definition page_open :: string where
  "page_open =
     ''<?xml version='' @ [CHR 0x22] @ ''1.0'' @ [CHR 0x22] @ '' encoding='' @ [CHR 0x22]
     @ ''UTF-8'' @ [CHR 0x22] @ ''?>'' @ [CHR 0x0A]
     @ ''<ListBucketResult xmlns='' @ [CHR 0x22] @ ''http://s3.amazonaws.com/doc/2006-03-01/''
     @ [CHR 0x22] @ ''>''"

definition list_page :: "list_entry list \<Rightarrow> string list \<Rightarrow> string option \<Rightarrow> string" where
  "list_page es cps tok =
     page_open
     @ (case tok of
          None \<Rightarrow> []
        | Some t \<Rightarrow> ''<NextContinuationToken>'' @ t @ ''</NextContinuationToken>'')
     @ ''<MaxKeys>1000</MaxKeys>''
     @ ''<IsTruncated>'' @ (if tok = None then ''false'' else ''true'') @ ''</IsTruncated>''
     @ concat (map contents_xml es)
     @ concat (map common_prefix_xml cps)
     @ ''</ListBucketResult>''"




section \<open>A reference object store\<close>

text \<open>
  An in-memory store that follows the protocol of the object store on single keys
  and on listings: the state is the list of stored objects, each a key with its
  headers and body.  It stands in for the store parameter in the examples.  A
  listing is one page, in the order of the state; batch deletes are not
  implemented.
\<close>

type_synonym mem = "(string \<times> (string \<times> string) list \<times> string) list"

definition plain_response :: "nat \<Rightarrow> string \<Rightarrow> response" where
  "plain_response st t = \<lparr> status = st, statusText = t, headers = Map.empty, body = None \<rparr>"

definition mem_remove :: "string \<Rightarrow> mem \<Rightarrow> mem" where
  "mem_remove k st = filter (\<lambda>(k', ob). k' \<noteq> k) st"

definition mem_entry :: "string \<times> (string \<times> string) list \<times> string \<Rightarrow> list_entry" where
  "mem_entry x =
     (case x of (k, hs, b) \<Rightarrow>
        \<lparr> entry_key = k,
          entry_lastModified = (case map_of hs ''Last-Modified'' of None \<Rightarrow> [] | Some d \<Rightarrow> d),
          entry_etag = (case map_of hs ''ETag'' of None \<Rightarrow> [] | Some e \<Rightarrow> e),
          entry_size = show_nat (length b) \<rparr>)"

definition mem_list :: "(string \<times> string) list \<Rightarrow> mem \<Rightarrow> string" where
  "mem_list params st =
     (let pfx = (case map_of params ''prefix'' of None \<Rightarrow> [] | Some p \<Rightarrow> p);
          matching = filter (\<lambda>(k, ob). prefix pfx k) st;
          folded = (\<lambda>k. map_of params ''delimiter'' = Some ''/'' \<and> CHR ''/'' \<in> set (drop (length pfx) k))
      in list_page
           (map mem_entry (filter (\<lambda>(k, ob). \<not> folded k) matching))
           (remdups (map (\<lambda>(k, ob). pfx @ takeWhile (\<lambda>c. c \<noteq> CHR ''/'') (drop (length pfx) k) @ ''/'')
                      (filter (\<lambda>(k, ob). folded k) matching)))
           None)"

definition mem_store :: "mem store" where
  "mem_store rq st =
     (case (fetch_method rq, url_key (fetch_url rq), url_query (fetch_url rq)) of
        (HEAD, Some k, q) \<Rightarrow>
          (case map_of st k of
             None \<Rightarrow> (Resolved (plain_response 404 ''Not Found''), st)
           | Some (hs, b) \<Rightarrow>
               (Resolved \<lparr> status = 200, statusText = ''OK'',
                           headers = map_of ((''Content-Length'', show_nat (length b)) # hs),
                           body = None \<rparr>, st))
      | (PUT, Some k, q) \<Rightarrow>
          (case map_of (fetch_headers rq) ''x-amz-copy-source'' of
             None \<Rightarrow>
               (Resolved (plain_response 200 ''OK''),
                mem_remove k st @ [(k, fetch_headers rq, (case fetch_body rq of None \<Rightarrow> [] | Some b \<Rightarrow> b))])
           | Some source \<Rightarrow>
               (case map_of st (drop (length (url_bucket (fetch_url rq)) + 1) source) of
                  None \<Rightarrow> (Resolved (plain_response 404 ''Not Found''), st)
                | Some ob \<Rightarrow> (Resolved (plain_response 200 ''OK''), mem_remove k st @ [(k, ob)])))
      | (DELETE, Some k, q) \<Rightarrow> (Resolved (plain_response 204 ''No Content''), mem_remove k st)
      | (GET, None, Some (Params params)) \<Rightarrow>
          (Resolved \<lparr> status = 200, statusText = ''OK'', headers = Map.empty,
                      body = Some (mem_list params st) \<rparr>, st)
      | other \<Rightarrow> (Resolved (plain_response 501 ''Not Implemented''), st))"

text \<open>A store on which every DELETE of a key fails and changes nothing.\<close>

definition failing_deletes :: "'st store \<Rightarrow> 'st store" where
  "failing_deletes store rq st =
     (if fetch_method rq = DELETE then (Resolved (plain_response 500 ''Internal Server Error''), st)
      else store rq st)"

text \<open>Example values: a formatter of dates, a collection marker and a request.\<close>

definition utc_text :: "js_date \<Rightarrow> string" where
  "utc_text d = (case d of Date s \<Rightarrow> s | Date_now \<Rightarrow> ''now'')"

definition marker :: "string \<Rightarrow> string \<times> (string \<times> string) list \<times> string" where
  "marker k = (k, [(''x-amz-meta-resourcetype'', ''<collection />'')], [])"

definition plain_file :: "string \<Rightarrow> string \<Rightarrow> string \<times> (string \<times> string) list \<times> string" where
  "plain_file k b = (k, [], b)"

definition req :: "string \<Rightarrow> (string \<times> string) list \<Rightarrow> string option \<Rightarrow> request" where
  "req p hs dest =
     \<lparr> url = ''http://dav.example'' @ p, pathname = p, header = map_of hs,
       payload = [], destination_pathname = dest \<rparr>"

text \<open>A store that refuses every write to a key and changes nothing then.\<close>

definition refusing_writes :: "'st store \<Rightarrow> 'st store" where
  "refusing_writes store rq st =
     (if fetch_method rq = PUT then (Resolved (plain_response 507 ''Insufficient Storage''), st)
      else store rq st)"

text \<open>A store that answers every write to a key with 200, whatever the store
  under it made of the write.\<close>

definition accepting_writes :: "'st store \<Rightarrow> 'st store" where
  "accepting_writes store rq st =
     (if fetch_method rq = PUT then (Resolved (plain_response 200 ''OK''), snd (store rq st))
      else store rq st)"




text \<open>A PUT to a path that ends with a slash, with a query after it.\<close>

definition query_put :: request where
  "query_put =
     \<lparr> url = ''http://dav.example/dir/?v=1'', pathname = ''/dir/'', header = Map.empty,
       payload = ''x'', destination_pathname = None \<rparr>"

text \<open>A collection \<open>c\<close> with a plain child \<open>a\<close>, a sub-collection \<open>b\<close> and two
  grandchildren under \<open>b\<close>, next to a plain resource \<open>f\<close>.\<close>

definition tree :: mem where
  "tree =
     [marker ''c'', plain_file ''c/a'' ''hello'', marker ''c/b'',
      plain_file ''c/b/x'' ''1'', plain_file ''c/b/y'' ''22'', plain_file ''f'' ''data'']"

section \<open>Notions used in the statements\<close>

text \<open>What a call ended with: the status of the response it returned, the message
  of the error it threw, whether it returned at all; and the status a fetch
  resolved to.\<close>

definition returned_status :: "response completion \<Rightarrow> nat option" where
  "returned_status c = (case c of Returns r \<Rightarrow> Some (status r) | Throws msg \<Rightarrow> None | Unfinished \<Rightarrow> None)"

definition thrown :: "response completion \<Rightarrow> string option" where
  "thrown c = (case c of Returns r \<Rightarrow> None | Throws msg \<Rightarrow> Some msg | Unfinished \<Rightarrow> None)"




definition status_of :: "fetch_result \<Rightarrow> nat option" where
  "status_of r = (case r of Rejected msg \<Rightarrow> None | Resolved resp \<Rightarrow> Some (status resp))"


text \<open>The responses the handlers build in place, by name.\<close>

definition forbidden :: response where
  "forbidden = new_Response (Some ''Forbidden'') 403 Map.empty"

definition method_not_allowed :: response where
  "method_not_allowed = new_Response (Some ''Method Not Allowed'') 405 Map.empty"

definition created :: response where
  "created = new_Response (Some []) 201 Map.empty"



text \<open>What the HEAD of a parent makes of it: absent, or without the sentinel.\<close>

definition refuses_parent :: "fetch_result \<Rightarrow> bool" where
  "refuses_parent r =
     (case r of
        Rejected msg \<Rightarrow> True
      | Resolved resp \<Rightarrow>
          status resp = 404 \<or> headers resp ''x-amz-meta-resourcetype'' \<noteq> Some ''<collection />'')"

text \<open>How the two destination checks read the result of a HEAD: the parent is
  missing when the fetch is rejected or answers 404; the destination exists when
  the fetch resolves to an ok response.\<close>

definition parent_missing :: "fetch_result \<Rightarrow> bool" where
  "parent_missing r = (case r of Rejected msg \<Rightarrow> True | Resolved resp \<Rightarrow> status resp = 404)"

definition resolved_ok :: "fetch_result \<Rightarrow> bool" where
  "resolved_ok r = (case r of Rejected msg \<Rightarrow> False | Resolved resp \<Rightarrow> ok resp)"

text \<open>The HEAD requests of the two destination checks, for a destination.\<close>

definition destination_heads :: "string \<Rightarrow> string \<Rightarrow> s3_request list" where
  "destination_heads bucket destination =
     (if destination_parent destination = [] then []
      else [head_request bucket (destination_parent destination)])
     @ [head_request bucket destination]"




text \<open>
  What a store holds under a prefix, as pages: every page but the last is a list of
  entries, a list of common prefixes and the token that leads to the next page.
  \<open>serves\<close> says that the store, asked with the token \<open>tok\<close> in the state \<open>st\<close>,
  answers with the first of these pages, and goes on with the next ones when it is
  asked with the token of each page in turn.
\<close>

type_synonym page = "list_entry list \<times> string list \<times> string"



section \<open>Facts shared by the proofs\<close>

lemmas js_defs =
  endsWith_def slice_from1_def slice_to_neg_def str_includes_def or_else_def truthy_def
  or_undefined_def strip_quotes_def suffix_to_prefix digit_char_def show_nat.simps
  number_toString_def

lemmas store_defs =
  getS3Url_def aws_fetch_def ok_def text_of_def new_Response_def head_request_def
  put_request_def delete_request_def copy_request_def list_request_def list_params_def
  batch_delete_request_def

lemmas example_defs =
  mem_store_def mem_remove_def mem_list_def mem_entry_def plain_response_def marker_def
  plain_file_def req_def utc_text_def failing_deletes_def refusing_writes_def
  accepting_writes_def tree_def

lemmas path_defs = make_resource_path_def strip_path_def parent_path_def destination_parent_def


lemma ok_not_404: "ok resp \<Longrightarrow> status resp \<noteq> 404"
  by (auto simp add: ok_def)

lemma is_collection_head:
  "(metadata_resourcetype (object_of_head path resp) = Some ''<collection />'')
   = (headers resp ''x-amz-meta-resourcetype'' = Some ''<collection />'')"
  by (auto simp add: metadata_resourcetype_def object_of_head_def or_else_def split: option.splits)

lemma propfind_self_found:
  assumes "path \<noteq> []" "store (head_request bucket path) st = (Resolved resp, st')" "ok resp"
  shows "propfind_self toUTCString store bucket path (log, st) =
           (Inr (multistatus_open @ generate_propfind_response toUTCString (Some (object_of_head path resp)),
                 headers resp ''x-amz-meta-resourcetype'' = Some ''<collection />''),
            (log @ [head_request bucket path], st'))"
  using assms by (simp add: propfind_self_def aws_fetch_def ok_not_404 is_collection_head Let_def)






section \<open>The property model (C6)\<close>



section \<open>PROPFIND and the Depth header (C2, C10)\<close>

text \<open>
  C2, as amended.  For every PROPFIND request whose Depth header has a value other
  than \<open>0\<close>, \<open>1\<close> and \<open>infinity\<close>: when the target is the root, or an object whose
  HEAD succeeds and carries the collection sentinel, the response is 403; when the
  target is an object whose HEAD succeeds without the sentinel, the Depth header is
  not read and the response is the 207 multistatus of the object alone.
\<close>

theorem propfind_other_depth:
  assumes "header rq ''Depth'' = Some d" and "d \<noteq> ''0''" and "d \<noteq> ''1''" and "d \<noteq> ''infinity''"
  shows "(make_resource_path rq = [] \<longrightarrow>
            handle_propfind toUTCString fuel store bucket rq (log, st) = (Returns forbidden, (log, st)))
       \<and> (make_resource_path rq \<noteq> []
            \<and> store (head_request bucket (make_resource_path rq)) st = (Resolved resp, st') \<and> ok resp \<longrightarrow>
            handle_propfind toUTCString fuel store bucket rq (log, st) =
              (if headers resp ''x-amz-meta-resourcetype'' = Some ''<collection />''
               then Returns forbidden
               else Returns (multistatus (multistatus_open
                      @ generate_propfind_response toUTCString
                          (Some (object_of_head (make_resource_path rq) resp)))),
               (log @ [head_request bucket (make_resource_path rq)], st')))"
proof (intro conjI impI)
  assume "make_resource_path rq = []"
  with assms show "handle_propfind toUTCString fuel store bucket rq (log, st) = (Returns forbidden, (log, st))"
    by (simp add: handle_propfind_def propfind_self_def forbidden_def)
next
  assume h: "make_resource_path rq \<noteq> []
    \<and> store (head_request bucket (make_resource_path rq)) st = (Resolved resp, st') \<and> ok resp"
  then have "propfind_self toUTCString store bucket (make_resource_path rq) (log, st) =
           (Inr (multistatus_open @ generate_propfind_response toUTCString
                   (Some (object_of_head (make_resource_path rq) resp)),
                 headers resp ''x-amz-meta-resourcetype'' = Some ''<collection />''),
            (log @ [head_request bucket (make_resource_path rq)], st'))"
    by (simp add: propfind_self_found)
  with assms show "handle_propfind toUTCString fuel store bucket rq (log, st) =
              (if headers resp ''x-amz-meta-resourcetype'' = Some ''<collection />''
               then Returns forbidden
               else Returns (multistatus (multistatus_open
                      @ generate_propfind_response toUTCString
                          (Some (object_of_head (make_resource_path rq) resp)))),
               (log @ [head_request bucket (make_resource_path rq)], st'))"
    by (simp add: handle_propfind_def forbidden_def Let_def)
qed

theorem propfind_other_depth_witness:
  "header (req ''/c'' [(''Depth'', ''2'')] None) ''Depth'' = Some ''2''
   \<and> make_resource_path (req ''/c'' [(''Depth'', ''2'')] None) = ''c''
   \<and> fst (handle_propfind utc_text 1 mem_store ''bk'' (req ''/c'' [(''Depth'', ''2'')] None)
            ([], [marker ''c''])) = Returns forbidden"
proof -
  let ?rq = "req ''/c'' [(''Depth'', ''2'')] None"
  let ?resp = "\<lparr> status = 200, statusText = ''OK'',
      headers = map_of [(''Content-Length'', ''0''), (''x-amz-meta-resourcetype'', ''<collection />'')],
      body = None \<rparr>"
  have d: "header ?rq ''Depth'' = Some ''2''" by (simp add: req_def)
  have p: "make_resource_path ?rq = ''c''" by (simp add: path_defs js_defs req_def)
  have s: "mem_store (head_request ''bk'' ''c'') [marker ''c''] = (Resolved ?resp, [marker ''c''])"
    by (simp add: example_defs store_defs js_defs)
  have o: "ok ?resp" by (simp add: ok_def)
  from propfind_other_depth [OF d, of utc_text 1 mem_store "''bk''" "[]" "[marker ''c'']" ?resp "[marker ''c'']"]
  show ?thesis using d p s o by simp
qed

text \<open>
  C2 as stated fails on a plain resource: with \<open>Depth: 2\<close> the response is 207.
\<close>

theorem propfind_other_depth_counterexample:
  "header (req ''/f'' [(''Depth'', ''2'')] None) ''Depth'' = Some ''2''
   \<and> returned_status (fst (handle_propfind utc_text 1 mem_store ''bk''
        (req ''/f'' [(''Depth'', ''2'')] None) ([], [plain_file ''f'' ''data'']))) = Some 207"
  by (simp add: handle_propfind_def propfind_self_def multistatus_def returned_status_def
      example_defs store_defs js_defs path_defs metadata_resourcetype_def object_of_head_def Let_def)



section \<open>PUT (C3)\<close>

lemma handle_put_trailing_slash:
  "endsWith (url rq) ''/'' \<Longrightarrow> handle_put store bucket rq w = (Returns method_not_allowed, w)"
  by (simp add: handle_put_def method_not_allowed_def)

lemma handle_put_conflict:
  assumes "\<not> endsWith (url rq) ''/''" and "parent_path 1 (make_resource_path rq) \<noteq> []"
    and "store (head_request bucket (parent_path 1 (make_resource_path rq))) st = (r, st')"
    and "refuses_parent r"
  shows "handle_put store bucket rq (log, st) =
           (Returns conflict, (log @ [head_request bucket (parent_path 1 (make_resource_path rq))], st'))"
  using assms
  by (cases r) (auto simp add: handle_put_def aws_fetch_def refuses_parent_def Let_def)

lemma handle_put_write:
  assumes "\<not> endsWith (url rq) ''/''"
    and "parent_path 1 (make_resource_path rq) \<noteq> [] \<longrightarrow>
           store (head_request bucket (parent_path 1 (make_resource_path rq))) st = (r, st1)
           \<and> \<not> refuses_parent r"
    and "parent_path 1 (make_resource_path rq) = [] \<longrightarrow> st1 = st"
    and "store (put_request bucket (make_resource_path rq) (copied_headers rq) (payload rq)) st1
           = (Resolved presp, st2)"
  shows "handle_put store bucket rq (log, st) =
           (if ok presp then Returns created else Throws (api_error presp),
            (log @ (if parent_path 1 (make_resource_path rq) = [] then []
                    else [head_request bucket (parent_path 1 (make_resource_path rq))])
                 @ [put_request bucket (make_resource_path rq) (copied_headers rq) (payload rq)],
             st2))"
proof (cases "parent_path 1 (make_resource_path rq) = []")
  case True
  with assms show ?thesis
    by (simp add: handle_put_def aws_fetch_def Let_def created_def)
next
  case False
  with assms obtain resp where "r = Resolved resp" "status resp \<noteq> 404"
    "headers resp ''x-amz-meta-resourcetype'' = Some ''<collection />''"
    by (cases r) (auto simp add: refuses_parent_def)
  with assms False show ?thesis
    by (simp add: handle_put_def aws_fetch_def Let_def created_def)
qed

text \<open>
  C3, as amended.  For every PUT request whose URL ends with \<open>/\<close> exactly when its
  path does (a URL with no query and no fragment): if the path ends with \<open>/\<close> the
  response is 405 and nothing is sent to the store; if the normalized path has a
  non-empty parent and the HEAD of the parent key is rejected, answers 404 or
  carries no collection sentinel, the response is 409 and the HEAD is the only
  request sent; otherwise one PUT is sent to the key, with the body of the request
  and those of the five content headers that the request holds with a non-empty
  value, and the response is 201 when the store accepts the write, while a refused
  write is thrown as an error.
\<close>

theorem handle_put_cases:
  assumes "endsWith (url rq) ''/'' = endsWith (pathname rq) ''/''"
  shows "(endsWith (pathname rq) ''/'' \<longrightarrow>
            handle_put store bucket rq (log, st) = (Returns method_not_allowed, (log, st)))
       \<and> (\<not> endsWith (pathname rq) ''/'' \<and> parent_path 1 (make_resource_path rq) \<noteq> []
            \<and> store (head_request bucket (parent_path 1 (make_resource_path rq))) st = (r, st1)
            \<and> refuses_parent r \<longrightarrow>
            handle_put store bucket rq (log, st) =
              (Returns conflict,
               (log @ [head_request bucket (parent_path 1 (make_resource_path rq))], st1)))
       \<and> (\<not> endsWith (pathname rq) ''/''
            \<and> (parent_path 1 (make_resource_path rq) \<noteq> [] \<longrightarrow>
                  store (head_request bucket (parent_path 1 (make_resource_path rq))) st = (r, st1)
                  \<and> \<not> refuses_parent r)
            \<and> (parent_path 1 (make_resource_path rq) = [] \<longrightarrow> st1 = st)
            \<and> store (put_request bucket (make_resource_path rq) (copied_headers rq) (payload rq)) st1
                 = (Resolved presp, st2) \<longrightarrow>
            handle_put store bucket rq (log, st) =
              (if ok presp then Returns created else Throws (api_error presp),
               (log @ (if parent_path 1 (make_resource_path rq) = [] then []
                       else [head_request bucket (parent_path 1 (make_resource_path rq))])
                    @ [put_request bucket (make_resource_path rq) (copied_headers rq) (payload rq)],
                st2)))"
  using assms handle_put_trailing_slash [of rq store bucket "(log, st)"]
    handle_put_conflict [of rq store bucket st r st1 log]
    handle_put_write [of rq store bucket st r st1 presp st2 log]
  by blast

theorem handle_put_cases_witness:
  "endsWith (url ((req ''/c/new'' [(''Content-Type'', ''text/plain'')] None)\<lparr> payload := ''hi'' \<rparr>)) ''/''
     = endsWith (pathname ((req ''/c/new'' [(''Content-Type'', ''text/plain'')] None)\<lparr> payload := ''hi'' \<rparr>)) ''/''
   \<and> handle_put mem_store ''bk''
         ((req ''/c/new'' [(''Content-Type'', ''text/plain'')] None)\<lparr> payload := ''hi'' \<rparr>)
         ([], [marker ''c''])
       = (Returns created,
          ([head_request ''bk'' ''c'',
            put_request ''bk'' ''c/new'' [(''Content-Type'', ''text/plain'')] ''hi''],
           [marker ''c'', (''c/new'', [(''Content-Type'', ''text/plain'')], ''hi'')]))"
proof -
  let ?rq = "(req ''/c/new'' [(''Content-Type'', ''text/plain'')] None)\<lparr> payload := ''hi'' \<rparr>"
  let ?resp = "\<lparr> status = 200, statusText = ''OK'',
      headers = map_of [(''Content-Length'', ''0''), (''x-amz-meta-resourcetype'', ''<collection />'')],
      body = None \<rparr>"
  have a: "endsWith (url ?rq) ''/'' = endsWith (pathname ?rq) ''/''"
    by (simp add: req_def js_defs)
  have n: "\<not> endsWith (pathname ?rq) ''/''" by (simp add: req_def js_defs)
  have p: "make_resource_path ?rq = ''c/new''" by (simp add: path_defs js_defs req_def)
  have q: "parent_path 1 ''c/new'' = ''c''" by (simp add: path_defs js_defs)
  have c: "copied_headers ?rq = [(''Content-Type'', ''text/plain'')]"
    by (simp add: copied_headers_def req_def List.map_filter_simps)
  have b: "payload ?rq = ''hi''" by simp
  have h: "mem_store (head_request ''bk'' ''c'') [marker ''c''] = (Resolved ?resp, [marker ''c''])"
    by (simp add: example_defs store_defs js_defs)
  have r: "\<not> refuses_parent (Resolved ?resp)" by (simp add: refuses_parent_def)
  have w: "mem_store (put_request ''bk'' ''c/new'' [(''Content-Type'', ''text/plain'')] ''hi'') [marker ''c'']
             = (Resolved (plain_response 200 ''OK''),
                [marker ''c'', (''c/new'', [(''Content-Type'', ''text/plain'')], ''hi'')])"
    by (simp add: example_defs store_defs)
  have k: "ok (plain_response 200 ''OK'')" by (simp add: ok_def plain_response_def)
  from handle_put_cases [OF a, of mem_store "''bk''" "[]" "[marker ''c'']" "Resolved ?resp"
      "[marker ''c'']" "plain_response 200 ''OK''"
      "[marker ''c'', (''c/new'', [(''Content-Type'', ''text/plain'')], ''hi'')]"]
  show ?thesis using a n p q c b h r w k by simp
qed

text \<open>
  C3 as stated fails in two ways.  A URL whose path ends with \<open>/\<close> and that carries
  a query does not end with \<open>/\<close>: the request is not refused, the object is written
  and the response is 201.  And when the store refuses the write, the handler
  throws instead of answering 201.
\<close>

theorem handle_put_counterexample:
  "endsWith (pathname query_put) ''/''
   \<and> returned_status (fst (handle_put mem_store ''bk'' query_put ([], []))) = Some 201
   \<and> map fetch_method (fst (snd (handle_put mem_store ''bk'' query_put ([], [])))) = [PUT]
   \<and> \<not> endsWith (pathname (req ''/f'' [] None)) ''/''
   \<and> parent_path 1 (make_resource_path (req ''/f'' [] None)) = []
   \<and> thrown (fst (handle_put (refusing_writes mem_store) ''bk'' (req ''/f'' [] None) ([], [])))
       = Some ''S3 API error: 507 Insufficient Storage''"
  by code_simp

section \<open>The preconditions of COPY and MOVE (C4, C7, C8)\<close>

lemma parent_check_conflict:
  assumes "destination_parent destination \<noteq> []"
    and "store (head_request bucket (destination_parent destination)) st = (r, st1)"
    and "parent_missing r"
  shows "destination_parent_check store bucket destination (log, st) =
           (Some conflict, (log @ [head_request bucket (destination_parent destination)], st1))"
  using assms
  by (cases r) (simp_all add: destination_parent_check_def aws_fetch_def parent_missing_def)

lemma parent_check_passes:
  assumes "destination_parent destination \<noteq> [] \<longrightarrow>
             store (head_request bucket (destination_parent destination)) st = (r, st1)
             \<and> \<not> parent_missing r"
    and "destination_parent destination = [] \<longrightarrow> st1 = st"
  shows "destination_parent_check store bucket destination (log, st) =
           (None, (log @ (if destination_parent destination = [] then []
                          else [head_request bucket (destination_parent destination)]), st1))"
  using assms
  by (cases r) (auto simp add: destination_parent_check_def aws_fetch_def parent_missing_def)

lemma exists_check:
  assumes "store (head_request bucket destination) st1 = (d, st2)"
  shows "destination_exists_check store bucket destination (log, st1) =
           (resolved_ok d, (log @ [head_request bucket destination], st2))"
  using assms
  by (cases d) (simp_all add: destination_exists_check_def aws_fetch_def resolved_ok_def)

lemma checks_pass:
  assumes "destination_parent destination \<noteq> [] \<longrightarrow>
             store (head_request bucket (destination_parent destination)) st = (r, st1)
             \<and> \<not> parent_missing r"
    and "destination_parent destination = [] \<longrightarrow> st1 = st"
    and "store (head_request bucket destination) st1 = (d, st2)"
  shows "destination_parent_check store bucket destination (log, st) =
           (None, (log @ (if destination_parent destination = [] then []
                          else [head_request bucket (destination_parent destination)]), st1))
       \<and> destination_exists_check store bucket destination
            (log @ (if destination_parent destination = [] then []
                    else [head_request bucket (destination_parent destination)]), st1) =
           (resolved_ok d, (log @ destination_heads bucket destination, st2))"
  using assms parent_check_passes [of destination store bucket st r st1 log]
    exists_check [of store bucket destination st1 d st2]
  by (simp add: destination_heads_def)

lemma handle_copy_conflict:
  assumes "header rq ''Destination'' = Some dh" and "destination_pathname rq = Some p"
    and "destination_parent (strip_path p) \<noteq> []"
    and "store (head_request bucket (destination_parent (strip_path p))) st = (r, st1)"
    and "parent_missing r"
  shows "handle_copy fuel store bucket rq (log, st) =
           (Returns conflict, (log @ [head_request bucket (destination_parent (strip_path p))], st1))"
  using assms parent_check_conflict [of "strip_path p" store bucket st r st1 log]
  by (simp add: handle_copy_def Let_def)

lemma handle_move_conflict:
  assumes "header rq ''Destination'' = Some dh" and "destination_pathname rq = Some p"
    and "destination_parent (strip_path p) \<noteq> []"
    and "store (head_request bucket (destination_parent (strip_path p))) st = (r, st1)"
    and "parent_missing r"
  shows "handle_move fuel store bucket rq (log, st) =
           (Returns conflict, (log @ [head_request bucket (destination_parent (strip_path p))], st1))"
  using assms parent_check_conflict [of "strip_path p" store bucket st r st1 log]
  by (simp add: handle_move_def Let_def)

lemma handle_copy_precondition:
  assumes "header rq ''Destination'' = Some dh" and "destination_pathname rq = Some p"
    and "header rq ''Overwrite'' = Some ''F''"
    and "destination_parent (strip_path p) \<noteq> [] \<longrightarrow>
             store (head_request bucket (destination_parent (strip_path p))) st = (r, st1)
             \<and> \<not> parent_missing r"
    and "destination_parent (strip_path p) = [] \<longrightarrow> st1 = st"
    and "store (head_request bucket (strip_path p)) st1 = (d, st2)"
    and "resolved_ok d"
  shows "handle_copy fuel store bucket rq (log, st) =
           (Returns precondition_failed, (log @ destination_heads bucket (strip_path p), st2))"
  using assms checks_pass [of "strip_path p" store bucket st r st1 d st2 log]
  by (simp add: handle_copy_def Let_def)

lemma handle_move_precondition:
  assumes "header rq ''Destination'' = Some dh" and "destination_pathname rq = Some p"
    and "header rq ''Overwrite'' \<noteq> Some ''T''"
    and "destination_parent (strip_path p) \<noteq> [] \<longrightarrow>
             store (head_request bucket (destination_parent (strip_path p))) st = (r, st1)
             \<and> \<not> parent_missing r"
    and "destination_parent (strip_path p) = [] \<longrightarrow> st1 = st"
    and "store (head_request bucket (strip_path p)) st1 = (d, st2)"
    and "resolved_ok d"
  shows "handle_move fuel store bucket rq (log, st) =
           (Returns precondition_failed, (log @ destination_heads bucket (strip_path p), st2))"
  using assms checks_pass [of "strip_path p" store bucket st r st1 d st2 log]
  by (simp add: handle_move_def Let_def)

lemma destination_heads_are_heads:
  "list_all (\<lambda>q. fetch_method q = HEAD) (destination_heads bucket destination)"
  by (simp add: destination_heads_def head_request_def)

lemma heads_keep_state:
  assumes "\<forall>q s. fetch_method q = HEAD \<longrightarrow> snd (store q s) = s"
    and "destination_parent destination \<noteq> [] \<longrightarrow>
             store (head_request bucket (destination_parent destination)) st = (r, st1)"
    and "destination_parent destination = [] \<longrightarrow> st1 = st"
    and "store (head_request bucket destination) st1 = (d, st2)"
  shows "st2 = st"
proof -
  have h: "\<And>k s x s'. store (head_request bucket k) s = (x, s') \<Longrightarrow> s' = s"
  proof -
    fix k s x s'
    assume e: "store (head_request bucket k) s = (x, s')"
    have "fetch_method (head_request bucket k) = HEAD" by (simp add: head_request_def)
    with assms(1) have "snd (store (head_request bucket k) s) = s" by blast
    with e show "s' = s" by simp
  qed
  from assms(2,3) h have "st1 = st" by (cases "destination_parent destination = []") auto
  moreover from assms(4) h have "st2 = st1" by blast
  ultimately show ?thesis by simp
qed

text \<open>
  C4, as amended.  For every COPY request that carries \<open>Overwrite: F\<close> and a
  Destination that parses, whose destination parent is empty or answers its HEAD
  with a status other than 404, and whose destination key exists (its HEAD
  succeeds): the response is 412 and the handler has sent HEAD requests only, for
  the parent and for the destination; a store that no HEAD changes is left exactly
  as it was.
\<close>

theorem copy_overwrite_forbidden:
  assumes "header rq ''Destination'' = Some dh" and "destination_pathname rq = Some p"
    and "header rq ''Overwrite'' = Some ''F''"
    and "destination_parent (strip_path p) \<noteq> [] \<longrightarrow>
             store (head_request bucket (destination_parent (strip_path p))) st = (r, st1)
             \<and> \<not> parent_missing r"
    and "destination_parent (strip_path p) = [] \<longrightarrow> st1 = st"
    and "store (head_request bucket (strip_path p)) st1 = (d, st2)"
    and "resolved_ok d"
  shows "handle_copy fuel store bucket rq (log, st) =
           (Returns precondition_failed, (log @ destination_heads bucket (strip_path p), st2))
       \<and> status precondition_failed = 412
       \<and> list_all (\<lambda>q. fetch_method q = HEAD) (destination_heads bucket (strip_path p))
       \<and> ((\<forall>q s. fetch_method q = HEAD \<longrightarrow> snd (store q s) = s) \<longrightarrow> st2 = st)"
proof (intro conjI impI)
  show "handle_copy fuel store bucket rq (log, st) =
           (Returns precondition_failed, (log @ destination_heads bucket (strip_path p), st2))"
    using assms by (rule handle_copy_precondition)
  show "status precondition_failed = 412"
    by (simp add: precondition_failed_def new_Response_def)
  show "list_all (\<lambda>q. fetch_method q = HEAD) (destination_heads bucket (strip_path p))"
    by (rule destination_heads_are_heads)
next
  assume "\<forall>q s. fetch_method q = HEAD \<longrightarrow> snd (store q s) = s"
  then show "st2 = st"
    using assms(4,5,6) heads_keep_state [of store "strip_path p" bucket st r st1 d st2] by blast
qed

lemma mem_store_head_keeps:
  "fetch_method q = HEAD \<longrightarrow> snd (mem_store q s) = s"
  by (simp add: mem_store_def split: option.splits prod.splits)

theorem copy_overwrite_forbidden_witness:
  "header (req ''/f'' [(''Destination'', ''http://dav.example/g''), (''Overwrite'', ''F'')] (Some ''/g''))
      ''Overwrite'' = Some ''F''
   \<and> resolved_ok (fst (mem_store (head_request ''bk'' ''g'')
        [plain_file ''f'' ''data'', plain_file ''g'' ''old'']))
   \<and> handle_copy 1 mem_store ''bk''
        (req ''/f'' [(''Destination'', ''http://dav.example/g''), (''Overwrite'', ''F'')] (Some ''/g''))
        ([], [plain_file ''f'' ''data'', plain_file ''g'' ''old''])
       = (Returns precondition_failed,
          ([head_request ''bk'' ''g''], [plain_file ''f'' ''data'', plain_file ''g'' ''old'']))"
proof -
  let ?rq = "req ''/f'' [(''Destination'', ''http://dav.example/g''), (''Overwrite'', ''F'')] (Some ''/g'')"
  let ?st = "[plain_file ''f'' ''data'', plain_file ''g'' ''old'']"
  let ?d = "fst (mem_store (head_request ''bk'' ''g'') ?st)"
  have a: "header ?rq ''Destination'' = Some ''http://dav.example/g''" by (simp add: req_def)
  have b: "destination_pathname ?rq = Some ''/g''" by (simp add: req_def)
  have c: "header ?rq ''Overwrite'' = Some ''F''" by (simp add: req_def)
  have g: "strip_path ''/g'' = ''g''" by (simp add: path_defs js_defs)
  have e: "destination_parent ''g'' = []" by (simp add: path_defs js_defs)
  have h: "mem_store (head_request ''bk'' ''g'') ?st = (?d, ?st)"
    using mem_store_head_keeps [of "head_request ''bk'' ''g''" ?st]
    by (simp add: head_request_def prod_eq_iff)
  have x: "resolved_ok ?d" by (simp add: resolved_ok_def example_defs store_defs)
  from copy_overwrite_forbidden [OF a b c, of mem_store "''bk''" ?st "Rejected []" ?st ?d ?st 1 "[]"]
  show ?thesis using c g e h x by (simp add: destination_heads_def)
qed

text \<open>
  C4 as stated fails when the destination exists and its parent does not: the
  parent is checked first and the response is 409.
\<close>

theorem copy_overwrite_forbidden_counterexample:
  "header (req ''/f'' [(''Destination'', ''http://dav.example/a/b''), (''Overwrite'', ''F'')] (Some ''/a/b''))
      ''Overwrite'' = Some ''F''
   \<and> resolved_ok (fst (mem_store (head_request ''bk'' ''a/b'')
        [plain_file ''f'' ''data'', plain_file ''a/b'' ''old'']))
   \<and> returned_status (fst (handle_copy 1 mem_store ''bk''
        (req ''/f'' [(''Destination'', ''http://dav.example/a/b''), (''Overwrite'', ''F'')] (Some ''/a/b''))
        ([], [plain_file ''f'' ''data'', plain_file ''a/b'' ''old'']))) = Some 409"
  by code_simp

lemma handle_move_same:
  assumes "header rq ''Destination'' = Some dh" and "destination_pathname rq = Some p"
    and "header rq ''Overwrite'' = Some ''T''"
    and "make_resource_path rq = strip_path p"
    and "destination_parent (strip_path p) \<noteq> [] \<longrightarrow>
             store (head_request bucket (destination_parent (strip_path p))) st = (r, st1)
             \<and> \<not> parent_missing r"
    and "destination_parent (strip_path p) = [] \<longrightarrow> st1 = st"
    and "store (head_request bucket (strip_path p)) st1 = (d, st2)"
    and "store (head_request bucket (strip_path p)) st2 = (Resolved sresp, st3)"
    and "status sresp \<noteq> 404"
  shows "handle_move fuel store bucket rq (log, st) =
           (Returns bad_request,
            (log @ destination_heads bucket (strip_path p) @ [head_request bucket (strip_path p)], st3))"
  using assms checks_pass [of "strip_path p" store bucket st r st1 d st2 log]
  by (simp add: handle_move_def move_body_def aws_fetch_def Let_def)

text \<open>
  C7, as amended.  For every MOVE request that carries \<open>Overwrite: T\<close>, whose
  normalized source path equals its normalized destination path, whose destination
  parent is empty or answers its HEAD with a status other than 404, and whose
  source key exists (its HEAD answers with a status other than 404): the response
  is 400 and the move is refused, the handler having sent HEAD requests only.
\<close>

theorem move_onto_itself:
  assumes "header rq ''Destination'' = Some dh" and "destination_pathname rq = Some p"
    and "header rq ''Overwrite'' = Some ''T''"
    and "make_resource_path rq = strip_path p"
    and "destination_parent (strip_path p) \<noteq> [] \<longrightarrow>
             store (head_request bucket (destination_parent (strip_path p))) st = (r, st1)
             \<and> \<not> parent_missing r"
    and "destination_parent (strip_path p) = [] \<longrightarrow> st1 = st"
    and "store (head_request bucket (strip_path p)) st1 = (d, st2)"
    and "store (head_request bucket (strip_path p)) st2 = (Resolved sresp, st3)"
    and "status sresp \<noteq> 404"
  shows "handle_move fuel store bucket rq (log, st) =
           (Returns bad_request,
            (log @ destination_heads bucket (strip_path p) @ [head_request bucket (strip_path p)], st3))
       \<and> status bad_request = 400
       \<and> list_all (\<lambda>q. fetch_method q = HEAD)
            (destination_heads bucket (strip_path p) @ [head_request bucket (strip_path p)])"
proof (intro conjI)
  show "handle_move fuel store bucket rq (log, st) =
           (Returns bad_request,
            (log @ destination_heads bucket (strip_path p) @ [head_request bucket (strip_path p)], st3))"
    using assms by (rule handle_move_same)
  show "status bad_request = 400" by (simp add: bad_request_def new_Response_def)
  show "list_all (\<lambda>q. fetch_method q = HEAD)
            (destination_heads bucket (strip_path p) @ [head_request bucket (strip_path p)])"
    using destination_heads_are_heads [of bucket "strip_path p"] by (simp add: head_request_def)
qed

theorem move_onto_itself_witness:
  "make_resource_path (req ''/f'' [(''Destination'', ''http://dav.example/f''), (''Overwrite'', ''T'')] (Some ''/f''))
     = strip_path ''/f''
   \<and> handle_move 1 mem_store ''bk''
        (req ''/f'' [(''Destination'', ''http://dav.example/f''), (''Overwrite'', ''T'')] (Some ''/f''))
        ([], [plain_file ''f'' ''data''])
       = (Returns bad_request,
          ([head_request ''bk'' ''f'', head_request ''bk'' ''f''], [plain_file ''f'' ''data'']))"
proof -
  let ?rq = "req ''/f'' [(''Destination'', ''http://dav.example/f''), (''Overwrite'', ''T'')] (Some ''/f'')"
  let ?st = "[plain_file ''f'' ''data'']"
  let ?resp = "\<lparr> status = 200, statusText = ''OK'',
      headers = map_of [(''Content-Length'', ''4'')], body = None \<rparr>"
  have a: "header ?rq ''Destination'' = Some ''http://dav.example/f''" by (simp add: req_def)
  have b: "destination_pathname ?rq = Some ''/f''" by (simp add: req_def)
  have c: "header ?rq ''Overwrite'' = Some ''T''" by (simp add: req_def)
  have m: "make_resource_path ?rq = strip_path ''/f''" by (simp add: make_resource_path_def req_def)
  have g: "strip_path ''/f'' = ''f''" by (simp add: path_defs js_defs)
  have e: "destination_parent ''f'' = []" by (simp add: path_defs js_defs)
  have h: "mem_store (head_request ''bk'' ''f'') ?st = (Resolved ?resp, ?st)"
    by (simp add: example_defs store_defs js_defs)
  have n: "status ?resp \<noteq> 404" by simp
  from move_onto_itself [OF a b c m, of mem_store "''bk''" ?st "Rejected []" ?st "Resolved ?resp" ?st ?resp ?st 1 "[]"]
  show ?thesis using m g e h n by (simp add: destination_heads_def)
qed

text \<open>
  C7 as stated fails without \<open>Overwrite: T\<close>: the destination is the source, it
  exists, and the overwrite check answers 412 before the paths are compared.
\<close>

theorem move_onto_itself_counterexample:
  "make_resource_path (req ''/f'' [(''Destination'', ''http://dav.example/f'')] (Some ''/f''))
     = strip_path ''/f''
   \<and> resolved_ok (fst (mem_store (head_request ''bk'' ''f'') [plain_file ''f'' ''data'']))
   \<and> returned_status (fst (handle_move 1 mem_store ''bk''
        (req ''/f'' [(''Destination'', ''http://dav.example/f'')] (Some ''/f''))
        ([], [plain_file ''f'' ''data'']))) = Some 412"
  by code_simp

lemma handle_copy_source_missing:
  assumes "header rq ''Destination'' = Some dh" and "destination_pathname rq = Some p"
    and "destination_parent (strip_path p) \<noteq> [] \<longrightarrow>
             store (head_request bucket (destination_parent (strip_path p))) st = (r, st1)
             \<and> \<not> parent_missing r"
    and "destination_parent (strip_path p) = [] \<longrightarrow> st1 = st"
    and "store (head_request bucket (strip_path p)) st1 = (d, st2)"
    and "\<not> resolved_ok d"
    and "store (head_request bucket (make_resource_path rq)) st2 = (Resolved sresp, st3)"
    and "status sresp = 404"
  shows "handle_copy fuel store bucket rq (log, st) =
           (Returns not_found,
            (log @ destination_heads bucket (strip_path p)
                 @ [head_request bucket (make_resource_path rq)], st3))"
  using assms checks_pass [of "strip_path p" store bucket st r st1 d st2 log]
  by (simp add: handle_copy_def aws_fetch_def Let_def)

lemma handle_move_source_missing:
  assumes "header rq ''Destination'' = Some dh" and "destination_pathname rq = Some p"
    and "destination_parent (strip_path p) \<noteq> [] \<longrightarrow>
             store (head_request bucket (destination_parent (strip_path p))) st = (r, st1)
             \<and> \<not> parent_missing r"
    and "destination_parent (strip_path p) = [] \<longrightarrow> st1 = st"
    and "store (head_request bucket (strip_path p)) st1 = (d, st2)"
    and "\<not> resolved_ok d"
    and "store (head_request bucket (make_resource_path rq)) st2 = (Resolved sresp, st3)"
    and "status sresp = 404"
  shows "handle_move fuel store bucket rq (log, st) =
           (Returns not_found,
            (log @ destination_heads bucket (strip_path p)
                 @ [head_request bucket (make_resource_path rq)], st3))"
  using assms checks_pass [of "strip_path p" store bucket st r st1 d st2 log]
  by (simp add: handle_move_def move_body_def aws_fetch_def Let_def)

text \<open>
  C8.  In COPY and in MOVE the HEAD of the destination's parent (409) and the HEAD
  of the destination (412) come before the HEAD of the source.  When the parent is
  missing the response is 409 and only the parent has been asked for; when the
  destination exists and may not be overwritten the response is 412 and only the
  parent and the destination have been asked for.  Neither answer depends on the
  source, so a request whose source is absent gets 409 or 412; it gets 404 only
  when both destination checks pass, and then the HEAD of the source is the last
  request sent.
\<close>

theorem destination_checks_first:
  assumes "header rq ''Destination'' = Some dh" and "destination_pathname rq = Some p"
  shows "(destination_parent (strip_path p) \<noteq> []
            \<and> store (head_request bucket (destination_parent (strip_path p))) st = (r, st1)
            \<and> parent_missing r \<longrightarrow>
            handle_copy fuel store bucket rq (log, st) =
              (Returns conflict, (log @ [head_request bucket (destination_parent (strip_path p))], st1))
            \<and> handle_move fuel store bucket rq (log, st) =
              (Returns conflict, (log @ [head_request bucket (destination_parent (strip_path p))], st1)))
       \<and> ((destination_parent (strip_path p) \<noteq> [] \<longrightarrow>
               store (head_request bucket (destination_parent (strip_path p))) st = (r, st1)
               \<and> \<not> parent_missing r)
            \<and> (destination_parent (strip_path p) = [] \<longrightarrow> st1 = st)
            \<and> store (head_request bucket (strip_path p)) st1 = (d, st2) \<and> resolved_ok d \<longrightarrow>
            (header rq ''Overwrite'' = Some ''F'' \<longrightarrow>
               handle_copy fuel store bucket rq (log, st) =
                 (Returns precondition_failed, (log @ destination_heads bucket (strip_path p), st2)))
            \<and> (header rq ''Overwrite'' \<noteq> Some ''T'' \<longrightarrow>
               handle_move fuel store bucket rq (log, st) =
                 (Returns precondition_failed, (log @ destination_heads bucket (strip_path p), st2))))
       \<and> ((destination_parent (strip_path p) \<noteq> [] \<longrightarrow>
               store (head_request bucket (destination_parent (strip_path p))) st = (r, st1)
               \<and> \<not> parent_missing r)
            \<and> (destination_parent (strip_path p) = [] \<longrightarrow> st1 = st)
            \<and> store (head_request bucket (strip_path p)) st1 = (d, st2) \<and> \<not> resolved_ok d
            \<and> store (head_request bucket (make_resource_path rq)) st2 = (Resolved sresp, st3)
            \<and> status sresp = 404 \<longrightarrow>
            handle_copy fuel store bucket rq (log, st) =
              (Returns not_found,
               (log @ destination_heads bucket (strip_path p)
                    @ [head_request bucket (make_resource_path rq)], st3))
            \<and> handle_move fuel store bucket rq (log, st) =
              (Returns not_found,
               (log @ destination_heads bucket (strip_path p)
                    @ [head_request bucket (make_resource_path rq)], st3)))"
  using assms
    handle_copy_conflict [of rq dh p store bucket st r st1 fuel log]
    handle_move_conflict [of rq dh p store bucket st r st1 fuel log]
    handle_copy_precondition [of rq dh p store bucket st r st1 d st2 fuel log]
    handle_move_precondition [of rq dh p store bucket st r st1 d st2 fuel log]
    handle_copy_source_missing [of rq dh p store bucket st r st1 d st2 sresp st3 fuel log]
    handle_move_source_missing [of rq dh p store bucket st r st1 d st2 sresp st3 fuel log]
  by blast

theorem destination_checks_first_witness:
  "status_of (fst (mem_store (head_request ''bk'' ''f'') [plain_file ''g'' ''old''])) = Some 404
   \<and> handle_copy 1 mem_store ''bk''
        (req ''/f'' [(''Destination'', ''http://dav.example/g''), (''Overwrite'', ''F'')] (Some ''/g''))
        ([], [plain_file ''g'' ''old''])
       = (Returns precondition_failed, ([head_request ''bk'' ''g''], [plain_file ''g'' ''old'']))
   \<and> handle_move 1 mem_store ''bk''
        (req ''/f'' [(''Destination'', ''http://dav.example/g''), (''Overwrite'', ''F'')] (Some ''/g''))
        ([], [plain_file ''g'' ''old''])
       = (Returns precondition_failed, ([head_request ''bk'' ''g''], [plain_file ''g'' ''old'']))
   \<and> handle_copy 1 mem_store ''bk''
        (req ''/f'' [(''Destination'', ''http://dav.example/x/y'')] (Some ''/x/y''))
        ([], [plain_file ''g'' ''old''])
       = (Returns conflict, ([head_request ''bk'' ''x''], [plain_file ''g'' ''old'']))
   \<and> handle_move 1 mem_store ''bk''
        (req ''/f'' [(''Destination'', ''http://dav.example/x/y'')] (Some ''/x/y''))
        ([], [plain_file ''g'' ''old''])
       = (Returns conflict, ([head_request ''bk'' ''x''], [plain_file ''g'' ''old'']))"
proof -
  let ?rq = "req ''/f'' [(''Destination'', ''http://dav.example/g''), (''Overwrite'', ''F'')] (Some ''/g'')"
  let ?rq' = "req ''/f'' [(''Destination'', ''http://dav.example/x/y'')] (Some ''/x/y'')"
  let ?st = "[plain_file ''g'' ''old'']"
  let ?d = "fst (mem_store (head_request ''bk'' ''g'') ?st)"
  let ?m = "fst (mem_store (head_request ''bk'' ''x'') ?st)"
  have s: "status_of (fst (mem_store (head_request ''bk'' ''f'') ?st)) = Some 404"
    by (simp add: status_of_def example_defs store_defs)
  have a: "header ?rq ''Destination'' = Some ''http://dav.example/g''" by (simp add: req_def)
  have b: "destination_pathname ?rq = Some ''/g''" by (simp add: req_def)
  have c: "header ?rq ''Overwrite'' = Some ''F''" by (simp add: req_def)
  have g: "strip_path ''/g'' = ''g''" by (simp add: path_defs js_defs)
  have e: "destination_parent ''g'' = []" by (simp add: path_defs js_defs)
  have h: "mem_store (head_request ''bk'' ''g'') ?st = (?d, ?st)"
    using mem_store_head_keeps [of "head_request ''bk'' ''g''" ?st]
    by (simp add: head_request_def prod_eq_iff)
  have x: "resolved_ok ?d" by (simp add: resolved_ok_def example_defs store_defs)
  have a': "header ?rq' ''Destination'' = Some ''http://dav.example/x/y''" by (simp add: req_def)
  have b': "destination_pathname ?rq' = Some ''/x/y''" by (simp add: req_def)
  have g': "strip_path ''/x/y'' = ''x/y''" by (simp add: path_defs js_defs)
  have e': "destination_parent ''x/y'' = ''x''" by (simp add: path_defs js_defs)
  have h': "mem_store (head_request ''bk'' ''x'') ?st = (?m, ?st)"
    using mem_store_head_keeps [of "head_request ''bk'' ''x''" ?st]
    by (simp add: head_request_def prod_eq_iff)
  have x': "parent_missing ?m" by (simp add: parent_missing_def example_defs store_defs)
  from destination_checks_first [OF a b, where store = mem_store and bucket = "''bk''" and st = ?st
      and r = "Rejected []" and ?st1.0 = ?st and d = ?d and ?st2.0 = ?st and fuel = 1 and log = "[]"]
  have first: "handle_copy 1 mem_store ''bk'' ?rq ([], ?st)
       = (Returns precondition_failed, ([head_request ''bk'' ''g''], ?st))
     \<and> handle_move 1 mem_store ''bk'' ?rq ([], ?st)
       = (Returns precondition_failed, ([head_request ''bk'' ''g''], ?st))"
    using c g e h x by (simp add: destination_heads_def)
  from destination_checks_first [OF a' b', where store = mem_store and bucket = "''bk''" and st = ?st
      and r = ?m and ?st1.0 = ?st and fuel = 1 and log = "[]"]
  have second: "handle_copy 1 mem_store ''bk'' ?rq' ([], ?st)
       = (Returns conflict, ([head_request ''bk'' ''x''], ?st))
     \<and> handle_move 1 mem_store ''bk'' ?rq' ([], ?st)
       = (Returns conflict, ([head_request ''bk'' ''x''], ?st))"
    using g' e' h' x' by simp
  from s first second show ?thesis by simp
qed

section \<open>MOVE and the deletes of the source (C9)\<close>














section \<open>The parser on a page of the list API\<close>



























section \<open>Pagination (C1)\<close>





section \<open>PROPFIND with Depth 1 (C5)\<close>





end
